theory Spec2Isabelle
  imports Main
begin

section \<open>Values of the host language\<close>

text \<open>
  The construct is TypeScript. An optional property is an \<open>option\<close>; a test
  \<^verbatim>\<open>if (x)\<close> on an optional string holds when the string is present and not empty;
  a template literal prints an absent value as the text \<^verbatim>\<open>undefined\<close>. Objects
  (a \<^verbatim>\<open>Buffer\<close>, a function schema, a Lambda function, an array) pass such a test
  whenever they are present.
\<close>

type_synonym Buffer = "char list"

definition truthy :: "string option \<Rightarrow> bool" where
  "truthy v = (case v of None \<Rightarrow> False | Some s \<Rightarrow> s \<noteq> [])"

definition interpolate :: "string option \<Rightarrow> string" where
  "interpolate v = (case v of None \<Rightarrow> ''undefined'' | Some s \<Rightarrow> s)"

text \<open>
  What the code throws: an \<^verbatim>\<open>Error\<close> with its message, a \<^verbatim>\<open>TypeError\<close> of the
  runtime, and the error with which a scope refuses a second child of one name (it
  carries the name).
\<close>

datatype error = Error string | TypeError string | DuplicateName string

section \<open>Resources of the provisioning library\<close>

text \<open>
  An attribute of a declared resource that is only known after deployment (an ARN, a
  generated name) is a token: a string naming the resource and the attribute.
\<close>

definition token :: "string \<Rightarrow> string \<Rightarrow> string" where
  "token cid attr = ''<'' @ cid @ ''.'' @ attr @ ''>''"

definition fn_select :: "nat \<Rightarrow> string \<Rightarrow> string" where
  "fn_select i l = ''Fn::Select('' @ replicate i (CHR ''+'') @ '','' @ l @ '')''"

definition fn_split :: "string \<Rightarrow> string \<Rightarrow> string" where
  "fn_split sep l = ''Fn::Split('' @ sep @ '','' @ l @ '')''"

datatype Effect = ALLOW | DENY

datatype BucketEncryption = S3_MANAGED | KMS_MANAGED | UNENCRYPTED

datatype BlockPublicAccess = BLOCK_ALL | BLOCK_ACLS

type_synonym Conditions = "(string \<times> string \<times> string option) list"

record ServicePrincipal =
  service :: string
  principalConditions :: Conditions

record PolicyStatement =
  sid :: string
  effect :: Effect
  actions :: "string list"
  resources :: "string list"
  conditions :: Conditions

record Role =
  roleId :: string
  assumedBy :: ServicePrincipal
  roleName :: string
  roleDescription :: string
  policy :: "PolicyStatement list"

definition roleArn :: "Role \<Rightarrow> string" where
  "roleArn r = token (roleId r) ''Arn''"

definition addToPolicy :: "PolicyStatement \<Rightarrow> Role \<Rightarrow> Role" where
  "addToPolicy st r = r\<lparr>policy := policy r @ [st]\<rparr>"

record Bucket =
  bucketId :: string
  encryption :: BucketEncryption
  blockPublicAccess :: BlockPublicAccess
  enforceSSL :: bool

record BucketDeployment =
  deploymentId :: string
  sources :: "string list"
  destinationBucket :: Bucket
  destinationKeyPrefix :: string

text \<open>
  \<^verbatim>\<open>deployedBucket\<close> of a deployment is not the destination bucket itself: it is a
  bucket imported from the ARN that the deployment reports once it has run, and its name
  is the resource part of that ARN.
\<close>

record IBucket =
  bucketArn :: string
  bucketName :: string

definition deployedBucket :: "BucketDeployment \<Rightarrow> IBucket" where
  "deployedBucket d =
     (let arn = token (deploymentId d) ''DestinationBucketArn''
      in \<lparr>bucketArn = arn, bucketName = fn_select 5 (fn_split '':'' arn)\<rparr>)"

definition objectKeys :: "BucketDeployment \<Rightarrow> string" where
  "objectKeys d = token (deploymentId d) ''SourceObjectKeys''"

record S3IdentifierProperty =
  s3BucketName :: "string option"
  s3ObjectKey :: "string option"

record APISchemaProperty =
  payload :: "string option"
  s3 :: "S3IdentifierProperty option"

datatype FunctionSchemaProperty = FunctionSchema "string list"

record ActionGroupExecutorProperty =
  lambda :: "string option"
  customControl :: "string option"

record AgentActionGroupProperty =
  p_actionGroupName :: string
  p_actionGroupExecutor :: ActionGroupExecutorProperty
  p_description :: "string option"
  p_actionGroupState :: "string option"
  p_apiSchema :: "APISchemaProperty option"
  p_functionSchema :: "FunctionSchemaProperty option"

record CfnAgentProps =
  agentName :: string
  foundationModel :: "string option"
  agentResourceRoleArn :: "string option"
  actionGroups :: "AgentActionGroupProperty list option"

record CfnAgent =
  agentId :: string
  agentProps :: CfnAgentProps

definition attrAgentArn :: "CfnAgent \<Rightarrow> string" where
  "attrAgentArn a = token (agentId a) ''AgentArn''"

datatype IFunction = Function string

record Permission =
  permissionFunction :: IFunction
  permissionName :: string
  permissionAction :: string
  principal :: ServicePrincipal
  sourceArn :: string

section \<open>The construct's input\<close>

record SchemaDefinition =
  inlineAPISchema :: "string option"
  apiSchemaFile :: "Buffer option"
  functionSchema :: "FunctionSchemaProperty option"

text \<open>
  The class \<^verbatim>\<open>AgentActionGroup\<close> and the interface \<^verbatim>\<open>SchemaDefinition\<close> are
  declared in \<^verbatim>\<open>constructs/AgentActionGroup\<close>, which is not among the sources. The
  records hold the properties the construct reads. The inline schema is a string, as the
  \<^verbatim>\<open>payload\<close> property it is assigned to requires.
\<close>

record AgentActionGroup =
  actionGroupName :: string
  description :: "string option"
  actionGroupState :: "string option"
  schemaDefinition :: SchemaDefinition
  lambdaFunc :: "IFunction option"
  actionExecutor :: ActionGroupExecutorProperty

text \<open>
  Modelled from the spec: \<^verbatim>\<open>getActionExecutor()\<close> of \<^verbatim>\<open>AgentActionGroup\<close>, which
  is not among the sources. It gives the executor reference of the action group, here the
  field \<open>actionExecutor\<close>.
\<close>

definition getActionExecutor :: "AgentActionGroup \<Rightarrow> ActionGroupExecutorProperty" where
  "getActionExecutor action = actionExecutor action"

record BedrockAgentBlueprintsConstructProps =
  props_agentDefinition :: CfnAgentProps
  props_actionGroups :: "AgentActionGroup list option"

section \<open>The state of an assembly\<close>

text \<open>
  \<open>world\<close> is what lies outside the construct: the process environment, the supply of
  random identifiers, the local file system's temporary directories, and the permissions
  attached to the Lambda functions. \<open>state\<close> adds the construct's own fields and the
  resources declared in its scope, in declaration order.
\<close>

record world =
  env_CDK_DEFAULT_REGION :: "string option"
  env_CDK_DEFAULT_ACCOUNT :: "string option"
  os_tmpdir :: string
  uuidSource :: "nat \<Rightarrow> string"
  uuidNext :: nat
  tempDirs :: "(string \<times> (string \<times> Buffer) list) list"
  permissions :: "Permission list"

text \<open>
  A child of the construct's scope. \<open>UnfinishedC\<close> is a child whose constructor threw
  after the scope had registered its name.
\<close>

datatype construct =
  BucketC Bucket | RoleC string | DeploymentC BucketDeployment | AgentC CfnAgent
  | UnfinishedC string

fun constructId :: "construct \<Rightarrow> string" where
  "constructId (BucketC b) = bucketId b"
| "constructId (RoleC i) = i"
| "constructId (DeploymentC d) = deploymentId d"
| "constructId (AgentC a) = agentId a"
| "constructId (UnfinishedC i) = i"

record state =
  world :: world
  children :: "construct list"
  this_agentDefinition :: CfnAgentProps
  this_agent :: "CfnAgent option"
  this_agentServiceRole :: "Role option"
  this_assetManagementBucket :: "Bucket option"

definition uuidv4 :: "state \<Rightarrow> string \<times> state" where
  "uuidv4 s =
     (uuidSource (world s) (uuidNext (world s)),
      s\<lparr>world := (world s)\<lparr>uuidNext := Suc (uuidNext (world s))\<rparr>\<rparr>)"

definition join :: "string \<Rightarrow> string \<Rightarrow> string" where
  "join a b = a @ ''/'' @ b"

definition mkdtempSync :: "string \<Rightarrow> state \<Rightarrow> string \<times> state" where
  "mkdtempSync pre s =
     (let (u, s1) = uuidv4 s; dir = pre @ take 6 u
      in (dir, s1\<lparr>world := (world s1)\<lparr>tempDirs := tempDirs (world s1) @ [(dir, [])]\<rparr>\<rparr>))"

text \<open>
  Modelled from the spec: \<^verbatim>\<open>writeFilesToDir\<close> of \<^verbatim>\<open>constructs/utilities/utils\<close>,
  which is not among the sources. It packages the named byte buffers: each is stored as a
  file of the directory.
\<close>

definition writeFilesToDir ::
  "string \<Rightarrow> (string \<times> Buffer) list \<Rightarrow> state \<Rightarrow> state" where
  "writeFilesToDir dir files s =
     s\<lparr>world := (world s)\<lparr>tempDirs :=
        map (\<lambda>(d, fs). if d = dir then (d, fs @ files) else (d, fs)) (tempDirs (world s))\<rparr>\<rparr>"

definition addPermission :: "IFunction \<Rightarrow> string \<Rightarrow> string \<Rightarrow> ServicePrincipal \<Rightarrow> string
    \<Rightarrow> state \<Rightarrow> state" where
  "addPermission f name act pr src s =
     s\<lparr>world := (world s)\<lparr>permissions := permissions (world s) @
        [\<lparr>permissionFunction = f, permissionName = name, permissionAction = act,
          principal = pr, sourceArn = src\<rparr>]\<rparr>\<rparr>"

section \<open>The construct\<close>

subsection \<open>Agent functions\<close>

definition modelInvocationStatement :: "string option \<Rightarrow> string option \<Rightarrow> PolicyStatement" where
  "modelInvocationStatement region modelUsed =
     \<lparr>sid = ''AllowModelInvocationForOrchestration'',
      effect = ALLOW,
      actions = [''bedrock:InvokeModel''],
      resources = [''arn:aws:bedrock:'' @ interpolate region @ ''::foundation-model/''
                    @ interpolate modelUsed],
      conditions = []\<rparr>"

definition setupIAMRole :: "state \<Rightarrow> Role \<times> state" where
  "setupIAMRole s =
     (let region = env_CDK_DEFAULT_REGION (world s);
          accountId = env_CDK_DEFAULT_ACCOUNT (world s);
          (u, s1) = uuidv4 s;
          bedrockServiceRole =
            \<lparr>roleId = ''BedrockServiceRole'',
             assumedBy = \<lparr>service = ''bedrock.amazonaws.com'',
                          principalConditions =
                            [(''StringEquals'', ''aws:SourceAccount'', accountId)]\<rparr>,
             roleName = ''AmazonBedrockExecutionRoleForAgents_'' @ take 12 u,
             roleDescription = ''Service role for Amazon Bedrock'',
             policy = []\<rparr>;
          s2 = s1\<lparr>children := children s1 @ [RoleC (roleId bedrockServiceRole)]\<rparr>;
          modelUsed = foundationModel (this_agentDefinition s2);
          bedrockServiceRole' =
            addToPolicy (modelInvocationStatement region modelUsed) bedrockServiceRole;
          s3 = s2\<lparr>this_agentDefinition :=
                 (this_agentDefinition s2)
                   \<lparr>agentResourceRoleArn := Some (roleArn bedrockServiceRole')\<rparr>\<rparr>
      in (bedrockServiceRole', s3))"

definition createBedrockAgent :: "state \<Rightarrow> state" where
  "createBedrockAgent s =
     (let s1 = (if \<not> truthy (agentResourceRoleArn (this_agentDefinition s))
                then (let (r, s') = setupIAMRole s in s'\<lparr>this_agentServiceRole := Some r\<rparr>)
                else s);
          a = \<lparr>agentId = ''AgentBlueprint-'' @ agentName (this_agentDefinition s1),
               agentProps = this_agentDefinition s1\<rparr>
      in s1\<lparr>children := children s1 @ [AgentC a], this_agent := Some a\<rparr>)"

subsection \<open>S3 asset management bucket functions\<close>

definition setupS3Bucket :: "state \<Rightarrow> Bucket \<times> state" where
  "setupS3Bucket s =
     (let (u, s1) = uuidv4 s;
          b = \<lparr>bucketId = ''AgentBlueprintAssets-'' @ take 12 u,
               encryption = S3_MANAGED,
               blockPublicAccess = BLOCK_ALL,
               enforceSSL = True\<rparr>
      in (b, s1\<lparr>children := children s1 @ [BucketC b]\<rparr>))"

text \<open>
  The \<^verbatim>\<open>finally\<close> block of \<^verbatim>\<open>deployAssetsToBucket\<close> holds a comment only, so every
  exit of the \<^verbatim>\<open>try\<close> block leaves the state as the block left it. Declaring the
  deployment first registers its name with the scope, which refuses a name it already
  holds; with the name registered, a destination bucket that is undefined is a
  \<^verbatim>\<open>TypeError\<close> of the library. The id of a deployment is made of the action group's
  name, so it can repeat; the ids of the bucket, the role and the agent cannot meet an id
  declared before them in the constructor (\<open>constructor_scope_distinct\<close> below), and
  their declarations carry no such test.
\<close>

definition deployAssetsToBucket ::
  "(string \<times> Buffer) list \<Rightarrow> string \<Rightarrow> state \<Rightarrow> (error + BucketDeployment) \<times> state" where
  "deployAssetsToBucket assetFiles pre s =
     (let (tempDir, s1) = mkdtempSync (join (os_tmpdir (world s)) ''cdk-'') s;
          s2 = writeFilesToDir tempDir assetFiles s1
      in (if ''AssetDeployment-'' @ pre \<in> set (map constructId (children s2)) then
            (Inl (DuplicateName (''AssetDeployment-'' @ pre)), s2)
          else
            (case this_assetManagementBucket s2 of
               None \<Rightarrow>
                 (Inl (TypeError ''destinationBucket is undefined''),
                  s2\<lparr>children := children s2 @ [UnfinishedC (''AssetDeployment-'' @ pre)]\<rparr>)
             | Some b \<Rightarrow>
                 (let bucketDeployment =
                        \<lparr>deploymentId = ''AssetDeployment-'' @ pre,
                         sources = [tempDir],
                         destinationBucket = b,
                         destinationKeyPrefix = pre\<rparr>
                  in (Inr bucketDeployment,
                      s2\<lparr>children := children s2 @ [DeploymentC bucketDeployment]\<rparr>)))))"

definition schemaAccessStatement :: "string \<Rightarrow> string option \<Rightarrow> PolicyStatement" where
  "schemaAccessStatement s3ArtifactArn accountId =
     \<lparr>sid = ''AllowAccessToActionGroupAPISchemas'',
      effect = ALLOW,
      actions = [''s3:GetObject''],
      resources = [s3ArtifactArn],
      conditions = [(''StringEquals'', ''aws:ResourceAccount'', accountId)]\<rparr>"

definition addSchemaAccessForAgents :: "string \<Rightarrow> state \<Rightarrow> state" where
  "addSchemaAccessForAgents s3ArtifactArn s =
     (case this_agentServiceRole s of
        None \<Rightarrow> s
      | Some r \<Rightarrow>
          s\<lparr>this_agentServiceRole :=
              Some (addToPolicy
                (schemaAccessStatement s3ArtifactArn (env_CDK_DEFAULT_ACCOUNT (world s))) r)\<rparr>)"

definition uploadSchemaToS3 ::
  "Buffer option \<Rightarrow> string \<Rightarrow> state \<Rightarrow> (error + S3IdentifierProperty) \<times> state" where
  "uploadSchemaToS3 schemaFile groupName s =
     (case schemaFile of
        None \<Rightarrow> (Inr \<lparr>s3BucketName = None, s3ObjectKey = None\<rparr>, s)
      | Some file \<Rightarrow>
          (case deployAssetsToBucket
                  [(''OpenAPISchema_'' @ groupName @ ''.json'', file)] groupName s of
             (Inl e, s1) \<Rightarrow> (Inl e, s1)
           | (Inr deploymentInfo, s1) \<Rightarrow>
               (Inr \<lparr>s3BucketName = Some (bucketName (deployedBucket deploymentInfo)),
                     s3ObjectKey = Some (fn_select 0 (objectKeys deploymentInfo))\<rparr>,
                addSchemaAccessForAgents
                  (bucketArn (deployedBucket deploymentInfo) @ ''/'' @ groupName) s1)))"

subsection \<open>Action group functions\<close>

definition checkActionsRequireArtifacts :: "AgentActionGroup list option \<Rightarrow> bool" where
  "checkActionsRequireArtifacts actionGroups_in =
     (case actionGroups_in of
        None \<Rightarrow> False
      | Some ags \<Rightarrow> list_ex (\<lambda>action. apiSchemaFile (schemaDefinition action) \<noteq> None) ags)"

text \<open>
  What \<^verbatim>\<open>getApiSchema\<close> returns is spread into the action group property: an object
  with the key \<^verbatim>\<open>apiSchema\<close> or with the key \<^verbatim>\<open>functionSchema\<close>.
\<close>

record SchemaFields =
  r_apiSchema :: "APISchemaProperty option"
  r_functionSchema :: "FunctionSchemaProperty option"

definition getApiSchema ::
  "SchemaDefinition \<Rightarrow> string \<Rightarrow> state \<Rightarrow> (error + SchemaFields) \<times> state" where
  "getApiSchema sd groupName s =
     (if truthy (inlineAPISchema sd) then
        (Inr \<lparr>r_apiSchema = Some \<lparr>payload = inlineAPISchema sd, s3 = None\<rparr>,
              r_functionSchema = None\<rparr>, s)
      else if apiSchemaFile sd \<noteq> None then
        (case uploadSchemaToS3 (apiSchemaFile sd) groupName s of
           (Inl e, s1) \<Rightarrow> (Inl e, s1)
         | (Inr loc, s1) \<Rightarrow>
             (Inr \<lparr>r_apiSchema = Some \<lparr>payload = None, s3 = Some loc\<rparr>,
                   r_functionSchema = None\<rparr>, s1))
      else if functionSchema sd \<noteq> None then
        (Inr \<lparr>r_apiSchema = None, r_functionSchema = functionSchema sd\<rparr>, s)
      else
        (Inl (Error
           ''OpenAPI schema or functionDefinition schema required for creating action group''),
         s))"

definition actionGroupProperty :: "AgentActionGroup \<Rightarrow> SchemaFields \<Rightarrow> AgentActionGroupProperty" where
  "actionGroupProperty action r =
     \<lparr>p_actionGroupName = actionGroupName action,
      p_actionGroupExecutor = getActionExecutor action,
      p_description = description action,
      p_actionGroupState = actionGroupState action,
      p_apiSchema = r_apiSchema r,
      p_functionSchema = r_functionSchema r\<rparr>"

text \<open>
  The callback of \<^verbatim>\<open>actionGroups.map\<close>, run over the list from its head. The action
  groups are objects that the callback receives by reference, so the loop returns, beside
  the properties, the action groups as it leaves them.
\<close>

fun mapActionGroups ::
  "AgentActionGroup list \<Rightarrow> state \<Rightarrow>
     ((error + AgentActionGroupProperty list) \<times> AgentActionGroup list) \<times> state" where
  "mapActionGroups [] s = ((Inr [], []), s)"
| "mapActionGroups (action # rest) s =
     (case getApiSchema (schemaDefinition action) (actionGroupName action) s of
        (Inl e, s1) \<Rightarrow> ((Inl e, action # rest), s1)
      | (Inr r, s1) \<Rightarrow>
          (case mapActionGroups rest s1 of
             ((Inl e, rest'), s2) \<Rightarrow> ((Inl e, action # rest'), s2)
           | ((Inr ps, rest'), s2) \<Rightarrow>
               ((Inr (actionGroupProperty action r # ps), action # rest'), s2)))"

text \<open>
  \<open>associateActionGroupInfo\<close> returns the error it raised, if any, and the list it was
  given as the call leaves it.
\<close>

definition associateActionGroupInfo ::
  "AgentActionGroup list option \<Rightarrow> state \<Rightarrow>
     (error option \<times> AgentActionGroup list option) \<times> state" where
  "associateActionGroupInfo actionGroups_in s =
     (case actionGroups_in of
        None \<Rightarrow> ((None, None), s)
      | Some ags \<Rightarrow>
          (case mapActionGroups ags s of
             ((Inl e, ags'), s1) \<Rightarrow> ((Some e, Some ags'), s1)
           | ((Inr agentActionGroups, ags'), s1) \<Rightarrow>
               (let existingActions =
                      (case actionGroups (this_agentDefinition s1) of
                         None \<Rightarrow> [] | Some ex \<Rightarrow> ex)
                in ((None, Some ags'),
                    s1\<lparr>this_agentDefinition :=
                         (this_agentDefinition s1)
                           \<lparr>actionGroups := Some (existingActions @ agentActionGroups)\<rparr>\<rparr>))))"

text \<open>
  The callback of \<^verbatim>\<open>actionGroups.forEach\<close>. The permission name is computed for every
  action group; the optional call on \<^verbatim>\<open>lambdaFunc\<close> evaluates its arguments (and so
  reads the agent) only when the function is present.
\<close>

fun forEachActionGroup :: "AgentActionGroup list \<Rightarrow> state \<Rightarrow> error option \<times> state" where
  "forEachActionGroup [] s = (None, s)"
| "forEachActionGroup (action # rest) s =
     (let (u, s1) = uuidv4 s;
          permissionName = ''BedrockAgentInvokePermission-'' @ take 12 u
      in (case lambdaFunc action of
            None \<Rightarrow> forEachActionGroup rest s1
          | Some f \<Rightarrow>
              (case this_agent s1 of
                 None \<Rightarrow> (Some (TypeError ''agent is undefined''), s1)
               | Some a \<Rightarrow>
                   forEachActionGroup rest
                     (addPermission f permissionName ''lambda:InvokeFunction''
                        \<lparr>service = ''bedrock.amazonaws.com'', principalConditions = []\<rparr>
                        (attrAgentArn a) s1))))"

definition addResourcePolicyForActions ::
  "AgentActionGroup list option \<Rightarrow> state \<Rightarrow> error option \<times> state" where
  "addResourcePolicyForActions actionGroups_in s =
     (case actionGroups_in of
        None \<Rightarrow> (None, s)
      | Some ags \<Rightarrow> forEachActionGroup ags s)"

subsection \<open>The constructor\<close>

definition new_state :: "world \<Rightarrow> CfnAgentProps \<Rightarrow> state" where
  "new_state w agentDefinition =
     \<lparr>world = w, children = [], this_agentDefinition = agentDefinition,
      this_agent = None, this_agentServiceRole = None, this_assetManagementBucket = None\<rparr>"

text \<open>The first block of the constructor: the bucket is set up when an upload is required.\<close>

definition setupBucketIfRequired :: "AgentActionGroup list option \<Rightarrow> state \<Rightarrow> state" where
  "setupBucketIfRequired actionGroups_in s =
     (if checkActionsRequireArtifacts actionGroups_in
      then (let (b, s1) = setupS3Bucket s in s1\<lparr>this_assetManagementBucket := Some b\<rparr>)
      else s)"

definition constructor ::
  "world \<Rightarrow> BedrockAgentBlueprintsConstructProps \<Rightarrow> error option \<times> state" where
  "constructor w props =
     (let s0 = new_state w (props_agentDefinition props);
          s1 = setupBucketIfRequired (props_actionGroups props) s0
      in (case associateActionGroupInfo (props_actionGroups props) s1 of
            ((Some e, actionGroups'), s2) \<Rightarrow> (Some e, s2)
          | ((None, actionGroups'), s2) \<Rightarrow>
              addResourcePolicyForActions actionGroups' (createBedrockAgent s2)))"

section \<open>Vocabulary of the properties\<close>

fun isRoleC :: "construct \<Rightarrow> bool" where
  "isRoleC (RoleC _) = True"
| "isRoleC _ = False"

fun isBucketC :: "construct \<Rightarrow> bool" where
  "isBucketC (BucketC _) = True"
| "isBucketC _ = False"

fun isDeploymentC :: "construct \<Rightarrow> bool" where
  "isDeploymentC (DeploymentC _) = True"
| "isDeploymentC _ = False"

text \<open>
  A schema variant is populated when the test the code makes on it holds: the inline
  document is a non-empty string, the file or the function schema is present.
\<close>

definition populatedVariants :: "SchemaDefinition \<Rightarrow> nat" where
  "populatedVariants sd =
     (if truthy (inlineAPISchema sd) then 1 else 0) +
     (if apiSchemaFile sd \<noteq> None then 1 else 0) +
     (if functionSchema sd \<noteq> None then 1 else 0)"


text \<open>
  The store is in place for a schema definition when resolving the definition publishes
  nothing (the inline document wins, or there is no file reference) or the bucket exists.
  The constructor creates the bucket before any schema is resolved whenever some action
  group has a file reference.
\<close>

definition storeInPlace :: "state \<Rightarrow> SchemaDefinition \<Rightarrow> bool" where
  "storeInPlace s sd =
     (truthy (inlineAPISchema sd) \<or> apiSchemaFile sd = None \<or>
      this_assetManagementBucket s \<noteq> None)"

text \<open>
  Resolving a schema definition takes the file branch when the inline document is not
  populated and the file is present; an action group with such a definition is
  file-based.
\<close>

definition fileBranch :: "SchemaDefinition \<Rightarrow> bool" where
  "fileBranch sd = (\<not> truthy (inlineAPISchema sd) \<and> apiSchemaFile sd \<noteq> None)"

definition fileBased :: "AgentActionGroup \<Rightarrow> bool" where
  "fileBased action = fileBranch (schemaDefinition action)"

text \<open>
  The name of an action group is free in a state when the scope holds no child with the
  id that the deployment of its schema file would take.
\<close>

definition nameFree :: "state \<Rightarrow> string \<Rightarrow> bool" where
  "nameFree s n = (''AssetDeployment-'' @ n \<notin> set (map constructId (children s)))"

text \<open>
  A list of action groups can be published in a state when the store is in place for
  each, the file-based ones have distinct names, and these names are free in the state.
\<close>

definition publishable :: "state \<Rightarrow> AgentActionGroup list \<Rightarrow> bool" where
  "publishable s ags =
     (list_all (\<lambda>a. storeInPlace s (schemaDefinition a)) ags \<and>
      distinct (map actionGroupName (filter fileBased ags)) \<and>
      list_all (\<lambda>a. nameFree s (actionGroupName a)) (filter fileBased ags))"

definition distinctFileNames :: "AgentActionGroup list option \<Rightarrow> bool" where
  "distinctFileNames actionGroups_in =
     (case actionGroups_in of
        None \<Rightarrow> True
      | Some ags \<Rightarrow> distinct (map actionGroupName (filter fileBased ags)))"

text \<open>
  The capabilities are assembled when \<open>associateActionGroupInfo\<close>, run by the constructor
  after its first block, raised no error: the constructor then goes on to the agent.
\<close>

definition capabilitiesAssembled ::
  "world \<Rightarrow> BedrockAgentBlueprintsConstructProps \<Rightarrow> bool" where
  "capabilitiesAssembled w props =
     (fst (fst (associateActionGroupInfo (props_actionGroups props)
        (setupBucketIfRequired (props_actionGroups props)
           (new_state w (props_agentDefinition props))))) = None)"

text \<open>What resolving a schema definition returns when it succeeds.\<close>

definition resolvedFields :: "SchemaDefinition \<Rightarrow> string \<Rightarrow> SchemaFields" where
  "resolvedFields sd n =
     (if truthy (inlineAPISchema sd) then
        \<lparr>r_apiSchema = Some \<lparr>payload = inlineAPISchema sd, s3 = None\<rparr>, r_functionSchema = None\<rparr>
      else if apiSchemaFile sd \<noteq> None then
        \<lparr>r_apiSchema = Some \<lparr>payload = None,
           s3 = Some \<lparr>s3BucketName = Some (fn_select 5 (fn_split '':''
                        (token (''AssetDeployment-'' @ n) ''DestinationBucketArn''))),
                      s3ObjectKey = Some (fn_select 0
                        (token (''AssetDeployment-'' @ n) ''SourceObjectKeys''))\<rparr>\<rparr>,
         r_functionSchema = None\<rparr>
      else \<lparr>r_apiSchema = None, r_functionSchema = functionSchema sd\<rparr>)"

definition schemaErrorMessage :: string where
  "schemaErrorMessage =
     ''OpenAPI schema or functionDefinition schema required for creating action group''"

text \<open>
  Before the role and the agent are declared, the scope holds no id twice, and none that
  the role or the agent will take.
\<close>

definition scopeBeforeAgent :: "state \<Rightarrow> bool" where
  "scopeBeforeAgent s =
     (distinct (map constructId (children s)) \<and>
      list_all (\<lambda>i. take 15 i \<noteq> ''AgentBlueprint-'' \<and> i \<noteq> ''BedrockServiceRole'')
        (map constructId (children s)))"

section \<open>Sample inputs\<close>

definition sampleWorld :: world where
  "sampleWorld =
     \<lparr>env_CDK_DEFAULT_REGION = Some ''us-east-1'',
      env_CDK_DEFAULT_ACCOUNT = Some ''111122223333'',
      os_tmpdir = ''/tmp'',
      uuidSource = (\<lambda>n. ''0f8fad5b-d9cb-469f-a165-70867728950e''),
      uuidNext = 0, tempDirs = [], permissions = []\<rparr>"

definition bareWorld :: world where
  "bareWorld =
     sampleWorld\<lparr>env_CDK_DEFAULT_REGION := None, env_CDK_DEFAULT_ACCOUNT := None\<rparr>"

definition sampleDefinition :: CfnAgentProps where
  "sampleDefinition =
     \<lparr>agentName = ''helper'', foundationModel = Some ''anthropic.claude-v2'',
      agentResourceRoleArn = None, actionGroups = None\<rparr>"

definition ownRoleDefinition :: CfnAgentProps where
  "ownRoleDefinition =
     sampleDefinition\<lparr>agentResourceRoleArn := Some ''arn:aws:iam::111122223333:role/mine''\<rparr>"

definition noExecutor :: ActionGroupExecutorProperty where
  "noExecutor = \<lparr>lambda = None, customControl = Some ''RETURN_CONTROL''\<rparr>"

definition noSchema :: SchemaDefinition where
  "noSchema = \<lparr>inlineAPISchema = None, apiSchemaFile = None, functionSchema = None\<rparr>"

definition pingGroup :: AgentActionGroup where
  "pingGroup =
     \<lparr>actionGroupName = ''ping'', description = Some ''inline'',
      actionGroupState = Some ''ENABLED'',
      schemaDefinition = noSchema\<lparr>inlineAPISchema := Some ''{}''\<rparr>,
      lambdaFunc = None, actionExecutor = noExecutor\<rparr>"

definition fileGroup :: AgentActionGroup where
  "fileGroup =
     \<lparr>actionGroupName = ''orders'', description = None, actionGroupState = None,
      schemaDefinition = noSchema\<lparr>apiSchemaFile := Some ''openapi: 3.0.0''\<rparr>,
      lambdaFunc = None, actionExecutor = noExecutor\<rparr>"

definition functionGroup :: AgentActionGroup where
  "functionGroup =
     \<lparr>actionGroupName = ''lookup'', description = None, actionGroupState = None,
      schemaDefinition = noSchema\<lparr>functionSchema := Some (FunctionSchema [''find''])\<rparr>,
      lambdaFunc = Some (Function ''lookupFn''),
      actionExecutor = \<lparr>lambda = Some ''<lookupFn.Arn>'', customControl = None\<rparr>\<rparr>"

definition emptyGroup :: AgentActionGroup where
  "emptyGroup =
     \<lparr>actionGroupName = ''broken'', description = None, actionGroupState = None,
      schemaDefinition = noSchema, lambdaFunc = None, actionExecutor = noExecutor\<rparr>"




definition sampleBucket :: Bucket where
  "sampleBucket =
     \<lparr>bucketId = ''AgentBlueprintAssets-0f8fad5b-d9c'', encryption = S3_MANAGED,
      blockPublicAccess = BLOCK_ALL, enforceSSL = True\<rparr>"

definition sampleAgent :: CfnAgent where
  "sampleAgent = \<lparr>agentId = ''AgentBlueprint-helper'', agentProps = ownRoleDefinition\<rparr>"

definition storeState :: state where
  "storeState =
     (new_state sampleWorld sampleDefinition)\<lparr>this_assetManagementBucket := Some sampleBucket\<rparr>"

definition agentState :: state where
  "agentState =
     (new_state sampleWorld ownRoleDefinition)
       \<lparr>children := [AgentC sampleAgent], this_agent := Some sampleAgent\<rparr>"



section \<open>Properties\<close>

subsection \<open>Schema resolution\<close>

lemmas prim_defs = uuidv4_def mkdtempSync_def writeFilesToDir_def join_def
  deployAssetsToBucket_def addSchemaAccessForAgents_def uploadSchemaToS3_def getApiSchema_def
  deployedBucket_def objectKeys_def Let_def split_def

lemma truthy_simps:
  "truthy None = False" "truthy (Some s) = (s \<noteq> [])"
  by (simp_all add: truthy_def)

lemma getApiSchema_inline:
  "truthy (inlineAPISchema sd) \<Longrightarrow>
   getApiSchema sd n s =
     (Inr \<lparr>r_apiSchema = Some \<lparr>payload = inlineAPISchema sd, s3 = None\<rparr>,
           r_functionSchema = None\<rparr>, s)"
  by (simp add: getApiSchema_def)

lemma getApiSchema_function:
  "\<not> truthy (inlineAPISchema sd) \<Longrightarrow> apiSchemaFile sd = None \<Longrightarrow>
   functionSchema sd = Some f \<Longrightarrow>
   getApiSchema sd n s = (Inr \<lparr>r_apiSchema = None, r_functionSchema = Some f\<rparr>, s)"
  by (simp add: getApiSchema_def)

lemma getApiSchema_none:
  "\<not> truthy (inlineAPISchema sd) \<Longrightarrow> apiSchemaFile sd = None \<Longrightarrow>
   functionSchema sd = None \<Longrightarrow>
   getApiSchema sd n s = (Inl (Error schemaErrorMessage), s)"
  by (simp add: getApiSchema_def schemaErrorMessage_def)

text \<open>Writing the staged files leaves the scope as it was.\<close>

lemma staged_children:
  "children (writeFilesToDir dir files (snd (mkdtempSync pre s))) = children s"
  "this_assetManagementBucket (writeFilesToDir dir files (snd (mkdtempSync pre s))) =
     this_assetManagementBucket s"
  by (simp_all add: writeFilesToDir_def mkdtempSync_def uuidv4_def Let_def split_def)

lemma deployAssetsToBucket_taken:
  "\<not> nameFree s pre \<Longrightarrow>
   fst (deployAssetsToBucket files pre s) = Inl (DuplicateName (''AssetDeployment-'' @ pre)) \<and>
   children (snd (deployAssetsToBucket files pre s)) = children s"
  unfolding nameFree_def deployAssetsToBucket_def Let_def split_def
  by (simp add: staged_children)

lemma deployAssetsToBucket_free:
  "nameFree s pre \<Longrightarrow> this_assetManagementBucket s = Some b \<Longrightarrow>
   fst (deployAssetsToBucket files pre s) =
     Inr \<lparr>deploymentId = ''AssetDeployment-'' @ pre,
          sources = [fst (mkdtempSync (join (os_tmpdir (world s)) ''cdk-'') s)],
          destinationBucket = b, destinationKeyPrefix = pre\<rparr> \<and>
   children (snd (deployAssetsToBucket files pre s)) =
     children s @
       [DeploymentC \<lparr>deploymentId = ''AssetDeployment-'' @ pre,
          sources = [fst (mkdtempSync (join (os_tmpdir (world s)) ''cdk-'') s)],
          destinationBucket = b, destinationKeyPrefix = pre\<rparr>]"
  unfolding nameFree_def deployAssetsToBucket_def Let_def split_def
  by (simp add: staged_children)

lemma deployAssetsToBucket_nostore:
  "nameFree s pre \<Longrightarrow> this_assetManagementBucket s = None \<Longrightarrow>
   fst (deployAssetsToBucket files pre s) = Inl (TypeError ''destinationBucket is undefined'') \<and>
   children (snd (deployAssetsToBucket files pre s)) =
     children s @ [UnfinishedC (''AssetDeployment-'' @ pre)]"
  unfolding nameFree_def deployAssetsToBucket_def Let_def split_def
  by (simp add: staged_children)

lemma getApiSchema_file_branch:
  "fileBranch sd \<Longrightarrow>
   getApiSchema sd n s =
     (case deployAssetsToBucket
             [(''OpenAPISchema_'' @ n @ ''.json'', the (apiSchemaFile sd))] n s of
        (Inl e, s1) \<Rightarrow> (Inl e, s1)
      | (Inr d, s1) \<Rightarrow>
          (Inr \<lparr>r_apiSchema = Some \<lparr>payload = None,
                  s3 = Some \<lparr>s3BucketName = Some (bucketName (deployedBucket d)),
                             s3ObjectKey = Some (fn_select 0 (objectKeys d))\<rparr>\<rparr>,
                r_functionSchema = None\<rparr>,
           addSchemaAccessForAgents (bucketArn (deployedBucket d) @ ''/'' @ n) s1))"
  by (auto simp add: fileBranch_def getApiSchema_def uploadSchemaToS3_def
      split: prod.splits sum.splits)

lemma addSchemaAccessForAgents_children:
  "children (addSchemaAccessForAgents arn s) = children s"
  by (simp add: addSchemaAccessForAgents_def split: option.splits)

lemma getApiSchema_file:
  assumes "fileBranch sd" and "this_assetManagementBucket s = Some b" and "nameFree s n"
  shows "fst (getApiSchema sd n s) = Inr (resolvedFields sd n)"
    and "children (snd (getApiSchema sd n s)) =
           children s @
             [DeploymentC \<lparr>deploymentId = ''AssetDeployment-'' @ n,
                sources = [fst (mkdtempSync (join (os_tmpdir (world s)) ''cdk-'') s)],
                destinationBucket = b, destinationKeyPrefix = n\<rparr>]"
proof -
  let ?files = "[(''OpenAPISchema_'' @ n @ ''.json'', the (apiSchemaFile sd))]"
  let ?d = "\<lparr>deploymentId = ''AssetDeployment-'' @ n,
          sources = [fst (mkdtempSync (join (os_tmpdir (world s)) ''cdk-'') s)],
          destinationBucket = b, destinationKeyPrefix = n\<rparr>"
  obtain s1 where d: "deployAssetsToBucket ?files n s = (Inr ?d, s1)"
    and c: "children s1 = children s @ [DeploymentC ?d]"
    using deployAssetsToBucket_free[OF assms(3) assms(2), of ?files]
    by (cases "deployAssetsToBucket ?files n s") auto
  have f: "\<not> truthy (inlineAPISchema sd)" "apiSchemaFile sd \<noteq> None"
    using assms(1) by (simp_all add: fileBranch_def)
  show "fst (getApiSchema sd n s) = Inr (resolvedFields sd n)"
    unfolding getApiSchema_file_branch[OF assms(1)] d
    using f by (simp add: resolvedFields_def deployedBucket_def objectKeys_def Let_def)
  show "children (snd (getApiSchema sd n s)) = children s @ [DeploymentC ?d]"
    unfolding getApiSchema_file_branch[OF assms(1)] d
    by (simp add: addSchemaAccessForAgents_children c)
qed

lemma getApiSchema_file_nostore:
  assumes "fileBranch sd" and "this_assetManagementBucket s = None" and "nameFree s n"
  shows "fst (getApiSchema sd n s) = Inl (TypeError ''destinationBucket is undefined'')"
proof -
  let ?files = "[(''OpenAPISchema_'' @ n @ ''.json'', the (apiSchemaFile sd))]"
  obtain s1 where d: "deployAssetsToBucket ?files n s =
      (Inl (TypeError ''destinationBucket is undefined''), s1)"
    using deployAssetsToBucket_nostore[OF assms(3) assms(2), of ?files]
    by (cases "deployAssetsToBucket ?files n s") auto
  show ?thesis
    unfolding getApiSchema_file_branch[OF assms(1)] d by simp
qed


lemma getApiSchema_no_file_branch:
  "\<not> fileBranch sd \<Longrightarrow> snd (getApiSchema sd n s) = s"
  by (auto simp add: fileBranch_def getApiSchema_def)

lemma deployAssetsToBucket_frame:
  "this_agentDefinition (snd (deployAssetsToBucket files pre s)) = this_agentDefinition s"
  "this_agent (snd (deployAssetsToBucket files pre s)) = this_agent s"
  "this_agentServiceRole (snd (deployAssetsToBucket files pre s)) = this_agentServiceRole s"
  "this_assetManagementBucket (snd (deployAssetsToBucket files pre s)) =
     this_assetManagementBucket s"
  "permissions (world (snd (deployAssetsToBucket files pre s))) = permissions (world s)"
  "env_CDK_DEFAULT_REGION (world (snd (deployAssetsToBucket files pre s))) =
     env_CDK_DEFAULT_REGION (world s)"
  "env_CDK_DEFAULT_ACCOUNT (world (snd (deployAssetsToBucket files pre s))) =
     env_CDK_DEFAULT_ACCOUNT (world s)"
  "filter isRoleC (children (snd (deployAssetsToBucket files pre s))) =
     filter isRoleC (children s)"
  "filter isBucketC (children (snd (deployAssetsToBucket files pre s))) =
     filter isBucketC (children s)"
  by (simp_all add: deployAssetsToBucket_def mkdtempSync_def writeFilesToDir_def uuidv4_def
        Let_def split_def split: option.splits)

lemma addSchemaAccessForAgents_frame:
  "this_agentDefinition (addSchemaAccessForAgents arn s) = this_agentDefinition s"
  "this_agent (addSchemaAccessForAgents arn s) = this_agent s"
  "this_assetManagementBucket (addSchemaAccessForAgents arn s) = this_assetManagementBucket s"
  "world (addSchemaAccessForAgents arn s) = world s"
  "this_agentServiceRole s = None \<Longrightarrow> addSchemaAccessForAgents arn s = s"
  by (simp_all add: addSchemaAccessForAgents_def split: option.splits)

lemma getApiSchema_snd:
  "snd (getApiSchema sd n s) =
     (if fileBranch sd then
        (case fst (deployAssetsToBucket
                [(''OpenAPISchema_'' @ n @ ''.json'', the (apiSchemaFile sd))] n s) of
           Inl e \<Rightarrow> snd (deployAssetsToBucket
                [(''OpenAPISchema_'' @ n @ ''.json'', the (apiSchemaFile sd))] n s)
         | Inr d \<Rightarrow>
             addSchemaAccessForAgents (bucketArn (deployedBucket d) @ ''/'' @ n)
               (snd (deployAssetsToBucket
                  [(''OpenAPISchema_'' @ n @ ''.json'', the (apiSchemaFile sd))] n s)))
      else s)"
  by (simp add: getApiSchema_file_branch getApiSchema_no_file_branch
      split: prod.splits sum.splits)

lemma getApiSchema_frame:
  "this_agentDefinition (snd (getApiSchema sd n s)) = this_agentDefinition s"
  "this_agent (snd (getApiSchema sd n s)) = this_agent s"
  "this_assetManagementBucket (snd (getApiSchema sd n s)) = this_assetManagementBucket s"
  "permissions (world (snd (getApiSchema sd n s))) = permissions (world s)"
  "env_CDK_DEFAULT_REGION (world (snd (getApiSchema sd n s))) = env_CDK_DEFAULT_REGION (world s)"
  "env_CDK_DEFAULT_ACCOUNT (world (snd (getApiSchema sd n s))) = env_CDK_DEFAULT_ACCOUNT (world s)"
  "filter isRoleC (children (snd (getApiSchema sd n s))) = filter isRoleC (children s)"
  "filter isBucketC (children (snd (getApiSchema sd n s))) = filter isBucketC (children s)"
  unfolding getApiSchema_snd
  by (simp_all add: deployAssetsToBucket_frame addSchemaAccessForAgents_frame
        addSchemaAccessForAgents_children split: sum.splits)

lemma getApiSchema_role_None:
  "this_agentServiceRole s = None \<Longrightarrow> this_agentServiceRole (snd (getApiSchema sd n s)) = None"
  unfolding getApiSchema_snd
  by (simp add: deployAssetsToBucket_frame addSchemaAccessForAgents_frame split: sum.splits)

text \<open>
  Where the store is in place and, for the file branch, the name is free, resolution
  fails only for want of a populated variant, and what it returns depends on the schema
  definition and the name alone.
\<close>

lemma getApiSchema_result:
  assumes "storeInPlace s sd" and "fileBranch sd \<longrightarrow> nameFree s n"
  shows "fst (getApiSchema sd n s) =
     (if 0 < populatedVariants sd then Inr (resolvedFields sd n)
      else Inl (Error schemaErrorMessage))"
proof (cases "fileBranch sd")
  case True
  then obtain b where "this_assetManagementBucket s = Some b"
    using assms(1) by (auto simp add: storeInPlace_def fileBranch_def)
  moreover have "0 < populatedVariants sd"
    using True by (simp add: fileBranch_def populatedVariants_def)
  ultimately show ?thesis
    using getApiSchema_file(1)[OF True _ assms(2)[rule_format, OF True]] by simp
next
  case False
  then show ?thesis
    by (auto simp add: fileBranch_def populatedVariants_def resolvedFields_def
        getApiSchema_inline getApiSchema_function getApiSchema_none)
qed

lemma getApiSchema_ok_iff:
  "storeInPlace s sd \<Longrightarrow> fileBranch sd \<longrightarrow> nameFree s n \<Longrightarrow>
   (\<exists>r. fst (getApiSchema sd n s) = Inr r) = (0 < populatedVariants sd)"
  by (simp add: getApiSchema_result)

lemma storeInPlace_step:
  "storeInPlace (snd (getApiSchema sd n s)) sd' = storeInPlace s sd'"
  by (simp add: storeInPlace_def getApiSchema_frame)

text \<open>What a resolution adds to the ids of the scope.\<close>

lemma getApiSchema_ids:
  assumes "storeInPlace s sd" and "fileBranch sd \<longrightarrow> nameFree s n"
  shows "map constructId (children (snd (getApiSchema sd n s))) =
           map constructId (children s) @
           (if fileBranch sd then [''AssetDeployment-'' @ n] else [])"
proof (cases "fileBranch sd")
  case True
  then obtain b where "this_assetManagementBucket s = Some b"
    using assms(1) by (auto simp add: storeInPlace_def fileBranch_def)
  then show ?thesis
    using getApiSchema_file(2)[OF True _ assms(2)[rule_format, OF True]] True by simp
next
  case False
  then show ?thesis by (simp add: getApiSchema_no_file_branch)
qed


subsection \<open>The loop over the action groups\<close>

lemma mapActionGroups_Cons_snd:
  "snd (mapActionGroups (a # rest) s) =
     (case fst (getApiSchema (schemaDefinition a) (actionGroupName a) s) of
        Inl e \<Rightarrow> snd (getApiSchema (schemaDefinition a) (actionGroupName a) s)
      | Inr r \<Rightarrow>
          snd (mapActionGroups rest (snd (getApiSchema (schemaDefinition a) (actionGroupName a) s))))"
  by (simp split: prod.splits sum.splits)

lemma mapActionGroups_Cons_fst:
  "fst (fst (mapActionGroups (a # rest) s)) =
     (case fst (getApiSchema (schemaDefinition a) (actionGroupName a) s) of
        Inl e \<Rightarrow> Inl e
      | Inr r \<Rightarrow>
          (case fst (fst (mapActionGroups rest
                  (snd (getApiSchema (schemaDefinition a) (actionGroupName a) s)))) of
             Inl e \<Rightarrow> Inl e
           | Inr ps \<Rightarrow> Inr (actionGroupProperty a r # ps)))"
  by (simp split: prod.splits sum.splits)

text \<open>The loop leaves the action groups as it found them, whether it fails or not.\<close>

lemma mapActionGroups_Cons_unchanged:
  "snd (fst (mapActionGroups (a # rest) s)) =
     (case fst (getApiSchema (schemaDefinition a) (actionGroupName a) s) of
        Inl e \<Rightarrow> a # rest
      | Inr r \<Rightarrow>
          a # snd (fst (mapActionGroups rest
                 (snd (getApiSchema (schemaDefinition a) (actionGroupName a) s)))))"
  by (simp split: prod.splits sum.splits)

lemma mapActionGroups_unchanged: "snd (fst (mapActionGroups ags s)) = ags"
proof (induction ags arbitrary: s)
  case Nil
  show ?case by simp
next
  case (Cons a rest)
  show ?case
    unfolding mapActionGroups_Cons_unchanged
    by (simp add: Cons.IH split: sum.splits)
qed

lemma mapActionGroups_frame:
  "this_agentDefinition (snd (mapActionGroups ags s)) = this_agentDefinition s \<and>
   this_agent (snd (mapActionGroups ags s)) = this_agent s \<and>
   this_assetManagementBucket (snd (mapActionGroups ags s)) = this_assetManagementBucket s \<and>
   permissions (world (snd (mapActionGroups ags s))) = permissions (world s) \<and>
   env_CDK_DEFAULT_REGION (world (snd (mapActionGroups ags s))) = env_CDK_DEFAULT_REGION (world s) \<and>
   env_CDK_DEFAULT_ACCOUNT (world (snd (mapActionGroups ags s))) = env_CDK_DEFAULT_ACCOUNT (world s) \<and>
   filter isRoleC (children (snd (mapActionGroups ags s))) = filter isRoleC (children s) \<and>
   filter isBucketC (children (snd (mapActionGroups ags s))) = filter isBucketC (children s)"
proof (induction ags arbitrary: s)
  case Nil
  show ?case by simp
next
  case (Cons a rest)
  show ?case
    unfolding mapActionGroups_Cons_snd
    by (simp add: Cons.IH getApiSchema_frame split: sum.splits)
qed

lemma mapActionGroups_role_None:
  "this_agentServiceRole s = None \<Longrightarrow>
   this_agentServiceRole (snd (mapActionGroups ags s)) = None"
proof (induction ags arbitrary: s)
  case Nil
  then show ?case by simp
next
  case (Cons a rest)
  show ?case
    unfolding mapActionGroups_Cons_snd
    by (simp add: Cons.IH Cons.prems getApiSchema_role_None split: sum.splits)
qed

text \<open>
  A publishable list stays publishable from one action group to the next: the only id
  the step adds is the one of its own deployment, which no later name repeats.
\<close>

lemma publishable_head:
  assumes "publishable s (a # rest)"
  shows "storeInPlace s (schemaDefinition a)"
    and "fileBranch (schemaDefinition a) \<longrightarrow> nameFree s (actionGroupName a)"
  using assms by (auto simp add: publishable_def fileBased_def split: if_splits)

lemma publishable_tail:
  assumes "publishable s (a # rest)"
  shows "publishable (snd (getApiSchema (schemaDefinition a) (actionGroupName a) s)) rest"
proof -
  let ?s1 = "snd (getApiSchema (schemaDefinition a) (actionGroupName a) s)"
  note h = publishable_head[OF assms]
  have ids: "map constructId (children ?s1) =
           map constructId (children s) @
           (if fileBranch (schemaDefinition a) then [''AssetDeployment-'' @ actionGroupName a]
            else [])"
    by (rule getApiSchema_ids[OF h])
  have st: "list_all (\<lambda>b. storeInPlace ?s1 (schemaDefinition b)) rest"
    using assms by (simp add: publishable_def storeInPlace_step)
  have di: "distinct (map actionGroupName (filter fileBased rest))"
    using assms by (simp add: publishable_def split: if_splits)
  have fr: "list_all (\<lambda>b. nameFree ?s1 (actionGroupName b)) (filter fileBased rest)"
    unfolding list_all_iff
  proof
    fix b assume b: "b \<in> set (filter fileBased rest)"
    then have f: "nameFree s (actionGroupName b)"
      using assms by (simp add: publishable_def list_all_iff split: if_splits)
    have "fileBranch (schemaDefinition a) \<Longrightarrow> actionGroupName b \<noteq> actionGroupName a"
    proof
      assume fa: "fileBranch (schemaDefinition a)" and eq: "actionGroupName b = actionGroupName a"
      have "actionGroupName a \<notin> set (map actionGroupName (filter fileBased rest))"
        using assms fa by (simp add: publishable_def fileBased_def)
      moreover have "actionGroupName b \<in> set (map actionGroupName (filter fileBased rest))"
        unfolding set_map using b by (rule imageI)
      ultimately show False using eq by simp
    qed
    then show "nameFree ?s1 (actionGroupName b)"
      using f unfolding nameFree_def ids by auto
  qed
  show ?thesis
    using st di fr by (simp add: publishable_def)
qed

text \<open>
  Over a publishable list the loop fails only for want of a populated variant, with the
  schema error; otherwise it returns one property per action group, in order.
\<close>

lemma mapActionGroups_result:
  "publishable s ags \<Longrightarrow>
   fst (fst (mapActionGroups ags s)) =
     (if list_all (\<lambda>a. 0 < populatedVariants (schemaDefinition a)) ags
      then Inr (map (\<lambda>a. actionGroupProperty a
                  (resolvedFields (schemaDefinition a) (actionGroupName a))) ags)
      else Inl (Error schemaErrorMessage))"
proof (induction ags arbitrary: s)
  case Nil
  show ?case by simp
next
  case (Cons a rest)
  note h = publishable_head[OF Cons.prems]
  note r = getApiSchema_result[OF h]
  show ?case
    unfolding mapActionGroups_Cons_fst r
    by (simp add: Cons.IH[OF publishable_tail[OF Cons.prems]])
qed

lemma getApiSchema_deployments:
  assumes "storeInPlace s sd" and "fileBranch sd \<longrightarrow> nameFree s n"
  shows "length (filter isDeploymentC (children (snd (getApiSchema sd n s)))) =
     length (filter isDeploymentC (children s)) + (if fileBranch sd then 1 else 0)"
proof (cases "fileBranch sd")
  case True
  then obtain b where "this_assetManagementBucket s = Some b"
    using assms(1) by (auto simp add: storeInPlace_def fileBranch_def)
  then show ?thesis
    using getApiSchema_file(2)[OF True _ assms(2)[rule_format, OF True]] True by simp
next
  case False
  then show ?thesis by (simp add: getApiSchema_no_file_branch)
qed

lemma mapActionGroups_deployments:
  "publishable s ags \<Longrightarrow>
   list_all (\<lambda>a. 0 < populatedVariants (schemaDefinition a)) ags \<Longrightarrow>
   length (filter isDeploymentC (children (snd (mapActionGroups ags s)))) =
     length (filter isDeploymentC (children s)) + length (filter fileBased ags)"
proof (induction ags arbitrary: s)
  case Nil
  show ?case by simp
next
  case (Cons a rest)
  note h = publishable_head[OF Cons.prems(1)]
  have pop: "list_all (\<lambda>a. 0 < populatedVariants (schemaDefinition a)) rest"
    "0 < populatedVariants (schemaDefinition a)"
    using Cons.prems(2) by simp_all
  have r: "fst (getApiSchema (schemaDefinition a) (actionGroupName a) s) =
             Inr (resolvedFields (schemaDefinition a) (actionGroupName a))"
    using getApiSchema_result[OF h] pop(2) by simp
  show ?case
    unfolding mapActionGroups_Cons_snd r
    by (simp add: Cons.IH[OF publishable_tail[OF Cons.prems(1)] pop(1)]
          getApiSchema_deployments[OF h] fileBased_def)
qed

subsection \<open>Invocation permissions\<close>

lemma forEachActionGroup_Cons:
  "forEachActionGroup (action # rest) s =
     (case lambdaFunc action of
        None \<Rightarrow> forEachActionGroup rest (snd (uuidv4 s))
      | Some f \<Rightarrow>
          (case this_agent s of
             None \<Rightarrow> (Some (TypeError ''agent is undefined''), snd (uuidv4 s))
           | Some a \<Rightarrow>
               forEachActionGroup rest
                 (addPermission f
                    (''BedrockAgentInvokePermission-'' @ take 12 (fst (uuidv4 s)))
                    ''lambda:InvokeFunction''
                    \<lparr>service = ''bedrock.amazonaws.com'', principalConditions = []\<rparr>
                    (attrAgentArn a) (snd (uuidv4 s)))))"
  by (simp add: split_def Let_def uuidv4_def split: option.splits)

lemma uuidv4_frame:
  "children (snd (uuidv4 s)) = children s"
  "this_agentDefinition (snd (uuidv4 s)) = this_agentDefinition s"
  "this_agent (snd (uuidv4 s)) = this_agent s"
  "this_agentServiceRole (snd (uuidv4 s)) = this_agentServiceRole s"
  "this_assetManagementBucket (snd (uuidv4 s)) = this_assetManagementBucket s"
  "permissions (world (snd (uuidv4 s))) = permissions (world s)"
  "tempDirs (world (snd (uuidv4 s))) = tempDirs (world s)"
  by (simp_all add: uuidv4_def)

lemma addPermission_frame:
  "children (addPermission f n act pr src s) = children s"
  "this_agentDefinition (addPermission f n act pr src s) = this_agentDefinition s"
  "this_agent (addPermission f n act pr src s) = this_agent s"
  "this_agentServiceRole (addPermission f n act pr src s) = this_agentServiceRole s"
  "this_assetManagementBucket (addPermission f n act pr src s) = this_assetManagementBucket s"
  "tempDirs (world (addPermission f n act pr src s)) = tempDirs (world s)"
  by (simp_all add: addPermission_def)

lemma forEachActionGroup_frame:
  "children (snd (forEachActionGroup ags s)) = children s \<and>
   this_agentDefinition (snd (forEachActionGroup ags s)) = this_agentDefinition s \<and>
   this_agent (snd (forEachActionGroup ags s)) = this_agent s \<and>
   this_agentServiceRole (snd (forEachActionGroup ags s)) = this_agentServiceRole s \<and>
   this_assetManagementBucket (snd (forEachActionGroup ags s)) = this_assetManagementBucket s \<and>
   tempDirs (world (snd (forEachActionGroup ags s))) = tempDirs (world s)"
proof (induction ags arbitrary: s)
  case Nil
  show ?case by simp
next
  case (Cons a rest)
  show ?case
    unfolding forEachActionGroup_Cons
    by (simp add: Cons.IH uuidv4_frame addPermission_frame split: option.splits)
qed

text \<open>The grants a pass over the action groups issues: what it appended to the permissions.\<close>

lemma forEachActionGroup_grants:
  "this_agent s = Some a \<Longrightarrow>
   fst (forEachActionGroup ags s) = None \<and>
   (\<exists>new. permissions (world (snd (forEachActionGroup ags s))) = permissions (world s) @ new \<and>
      map permissionFunction new = List.map_filter lambdaFunc ags \<and>
      list_all (\<lambda>g. permissionAction g = ''lambda:InvokeFunction'' \<and>
                    principal g = \<lparr>service = ''bedrock.amazonaws.com'', principalConditions = []\<rparr> \<and>
                    sourceArn g = attrAgentArn a) new)"
proof (induction ags arbitrary: s)
  case Nil
  show ?case by (simp add: List.map_filter_simps)
next
  case (Cons x rest)
  show ?case
  proof (cases "lambdaFunc x")
    case None
    have ag: "this_agent (snd (uuidv4 s)) = Some a"
      using Cons.prems by (simp add: uuidv4_frame)
    show ?thesis
      unfolding forEachActionGroup_Cons
      using Cons.IH[OF ag] None by (simp add: uuidv4_frame List.map_filter_simps)
  next
    case (Some f)
    define nm where "nm = ''BedrockAgentInvokePermission-'' @ take 12 (fst (uuidv4 s))"
    define pr where
      "pr = \<lparr>service = ''bedrock.amazonaws.com'', principalConditions = []\<rparr>"
    define g where
      "g = \<lparr>permissionFunction = f, permissionName = nm,
             permissionAction = ''lambda:InvokeFunction'', principal = pr,
             sourceArn = attrAgentArn a\<rparr>"
    let ?s1 = "addPermission f nm ''lambda:InvokeFunction'' pr (attrAgentArn a) (snd (uuidv4 s))"
    have ag: "this_agent ?s1 = Some a"
      using Cons.prems by (simp add: uuidv4_frame addPermission_frame)
    have step: "forEachActionGroup (x # rest) s = forEachActionGroup rest ?s1"
      unfolding forEachActionGroup_Cons nm_def pr_def using Some Cons.prems by simp
    have p1: "permissions (world ?s1) = permissions (world s) @ [g]"
      by (simp add: addPermission_def g_def uuidv4_frame)
    have gf: "permissionFunction g = f" "permissionAction g = ''lambda:InvokeFunction''"
      "principal g = \<lparr>service = ''bedrock.amazonaws.com'', principalConditions = []\<rparr>"
      "sourceArn g = attrAgentArn a"
      by (simp_all add: g_def pr_def)
    from Cons.IH[OF ag] obtain new where
      e: "fst (forEachActionGroup rest ?s1) = None" and
      n: "permissions (world (snd (forEachActionGroup rest ?s1))) = permissions (world ?s1) @ new"
         "map permissionFunction new = List.map_filter lambdaFunc rest"
         "list_all (\<lambda>g. permissionAction g = ''lambda:InvokeFunction'' \<and>
                    principal g = \<lparr>service = ''bedrock.amazonaws.com'', principalConditions = []\<rparr> \<and>
                    sourceArn g = attrAgentArn a) new"
      by blast
    have "permissions (world (snd (forEachActionGroup rest ?s1))) =
            permissions (world s) @ (g # new)"
      using n(1) p1 by simp
    moreover have "map permissionFunction (g # new) = List.map_filter lambdaFunc (x # rest)"
      using n(2) gf(1) Some by (simp add: List.map_filter_simps)
    moreover have "list_all (\<lambda>g. permissionAction g = ''lambda:InvokeFunction'' \<and>
                    principal g = \<lparr>service = ''bedrock.amazonaws.com'', principalConditions = []\<rparr> \<and>
                    sourceArn g = attrAgentArn a) (g # new)"
      using n(3) gf by simp
    ultimately show ?thesis
      unfolding step using e by blast
  qed
qed

subsection \<open>The execution role and the agent\<close>

lemma setupIAMRole_role:
  "fst (setupIAMRole s) =
     \<lparr>roleId = ''BedrockServiceRole'',
      assumedBy = \<lparr>service = ''bedrock.amazonaws.com'',
                   principalConditions =
                     [(''StringEquals'', ''aws:SourceAccount'',
                       env_CDK_DEFAULT_ACCOUNT (world s))]\<rparr>,
      roleName = ''AmazonBedrockExecutionRoleForAgents_'' @ take 12 (fst (uuidv4 s)),
      roleDescription = ''Service role for Amazon Bedrock'',
      policy = [modelInvocationStatement (env_CDK_DEFAULT_REGION (world s))
                  (foundationModel (this_agentDefinition s))]\<rparr>"
  by (simp add: setupIAMRole_def uuidv4_def addToPolicy_def Let_def split_def)

lemma setupIAMRole_state:
  "children (snd (setupIAMRole s)) = children s @ [RoleC ''BedrockServiceRole'']"
  "this_agentDefinition (snd (setupIAMRole s)) =
     (this_agentDefinition s)\<lparr>agentResourceRoleArn := Some (token ''BedrockServiceRole'' ''Arn'')\<rparr>"
  "this_agent (snd (setupIAMRole s)) = this_agent s"
  "this_agentServiceRole (snd (setupIAMRole s)) = this_agentServiceRole s"
  "this_assetManagementBucket (snd (setupIAMRole s)) = this_assetManagementBucket s"
  "permissions (world (snd (setupIAMRole s))) = permissions (world s)"
  "tempDirs (world (snd (setupIAMRole s))) = tempDirs (world s)"
  by (simp_all add: setupIAMRole_def uuidv4_def addToPolicy_def roleArn_def Let_def split_def)

lemma createBedrockAgent_own_role:
  "truthy (agentResourceRoleArn (this_agentDefinition s)) \<Longrightarrow>
   createBedrockAgent s =
     s\<lparr>children := children s @
          [AgentC \<lparr>agentId = ''AgentBlueprint-'' @ agentName (this_agentDefinition s),
                   agentProps = this_agentDefinition s\<rparr>],
       this_agent := Some \<lparr>agentId = ''AgentBlueprint-'' @ agentName (this_agentDefinition s),
                            agentProps = this_agentDefinition s\<rparr>\<rparr>"
  by (simp add: createBedrockAgent_def Let_def)

lemma createBedrockAgent_no_role:
  assumes "\<not> truthy (agentResourceRoleArn (this_agentDefinition s))"
  shows "this_agentServiceRole (createBedrockAgent s) = Some (fst (setupIAMRole s))"
    and "this_agentDefinition (createBedrockAgent s) =
           (this_agentDefinition s)\<lparr>agentResourceRoleArn := Some (token ''BedrockServiceRole'' ''Arn'')\<rparr>"
    and "children (createBedrockAgent s) =
           children s @ [RoleC ''BedrockServiceRole'',
             AgentC \<lparr>agentId = ''AgentBlueprint-'' @ agentName (this_agentDefinition s),
                     agentProps = (this_agentDefinition s)
                       \<lparr>agentResourceRoleArn := Some (token ''BedrockServiceRole'' ''Arn'')\<rparr>\<rparr>]"
    and "this_agent (createBedrockAgent s) =
           Some \<lparr>agentId = ''AgentBlueprint-'' @ agentName (this_agentDefinition s),
                 agentProps = (this_agentDefinition s)
                   \<lparr>agentResourceRoleArn := Some (token ''BedrockServiceRole'' ''Arn'')\<rparr>\<rparr>"
  using assms
  by (simp_all add: createBedrockAgent_def Let_def split_def setupIAMRole_state)

lemma createBedrockAgent_frame:
  "this_assetManagementBucket (createBedrockAgent s) = this_assetManagementBucket s"
  "permissions (world (createBedrockAgent s)) = permissions (world s)"
  "tempDirs (world (createBedrockAgent s)) = tempDirs (world s)"
  "actionGroups (this_agentDefinition (createBedrockAgent s)) = actionGroups (this_agentDefinition s)"
  "agentName (this_agentDefinition (createBedrockAgent s)) = agentName (this_agentDefinition s)"
  "foundationModel (this_agentDefinition (createBedrockAgent s)) = foundationModel (this_agentDefinition s)"
  "filter isBucketC (children (createBedrockAgent s)) = filter isBucketC (children s)"
  "this_agent (createBedrockAgent s) =
     Some \<lparr>agentId = ''AgentBlueprint-'' @ agentName (this_agentDefinition s),
           agentProps = this_agentDefinition (createBedrockAgent s)\<rparr>"
  by (simp_all add: createBedrockAgent_def Let_def split_def setupIAMRole_state)

subsection \<open>The stages of the constructor\<close>

lemma setupBucketIfRequired_frame:
  "this_agentDefinition (setupBucketIfRequired ags s) = this_agentDefinition s"
  "this_agent (setupBucketIfRequired ags s) = this_agent s"
  "this_agentServiceRole (setupBucketIfRequired ags s) = this_agentServiceRole s"
  "permissions (world (setupBucketIfRequired ags s)) = permissions (world s)"
  "tempDirs (world (setupBucketIfRequired ags s)) = tempDirs (world s)"
  "env_CDK_DEFAULT_REGION (world (setupBucketIfRequired ags s)) = env_CDK_DEFAULT_REGION (world s)"
  "env_CDK_DEFAULT_ACCOUNT (world (setupBucketIfRequired ags s)) = env_CDK_DEFAULT_ACCOUNT (world s)"
  "filter isRoleC (children (setupBucketIfRequired ags s)) = filter isRoleC (children s)"
  by (simp_all add: setupBucketIfRequired_def setupS3Bucket_def uuidv4_def Let_def split_def)

lemma setupBucketIfRequired_bucket:
  "this_assetManagementBucket (setupBucketIfRequired ags s) =
     (if checkActionsRequireArtifacts ags
      then Some \<lparr>bucketId = ''AgentBlueprintAssets-'' @ take 12 (fst (uuidv4 s)),
                 encryption = S3_MANAGED, blockPublicAccess = BLOCK_ALL, enforceSSL = True\<rparr>
      else this_assetManagementBucket s)"
  "children (setupBucketIfRequired ags s) =
     children s @
     (if checkActionsRequireArtifacts ags
      then [BucketC \<lparr>bucketId = ''AgentBlueprintAssets-'' @ take 12 (fst (uuidv4 s)),
                 encryption = S3_MANAGED, blockPublicAccess = BLOCK_ALL, enforceSSL = True\<rparr>]
      else [])"
  by (simp_all add: setupBucketIfRequired_def setupS3Bucket_def uuidv4_def Let_def split_def)

lemma storeInPlace_all:
  "checkActionsRequireArtifacts (Some ags) \<longrightarrow> this_assetManagementBucket s \<noteq> None \<Longrightarrow>
   list_all (\<lambda>a. storeInPlace s (schemaDefinition a)) ags"
  by (auto simp add: checkActionsRequireArtifacts_def storeInPlace_def list_all_iff list_ex_iff)

lemma storeInPlace_after_setup:
  "list_all (\<lambda>a. storeInPlace (setupBucketIfRequired (Some ags) s) (schemaDefinition a)) ags"
  by (rule storeInPlace_all) (simp add: setupBucketIfRequired_bucket)

text \<open>
  The scope of a new construct holds at most the bucket, whose id is no deployment's: every
  name is free.
\<close>

lemma nameFree_after_setup:
  "nameFree (setupBucketIfRequired ags (new_state w d)) n"
  by (cases "checkActionsRequireArtifacts ags")
     (simp_all add: nameFree_def setupBucketIfRequired_bucket new_state_def)

lemma publishable_after_setup:
  "distinct (map actionGroupName (filter fileBased ags)) \<Longrightarrow>
   publishable (setupBucketIfRequired (Some ags) (new_state w d)) ags"
  by (simp add: publishable_def storeInPlace_after_setup nameFree_after_setup list_all_iff)

lemma associateActionGroupInfo_None: "associateActionGroupInfo None s = ((None, None), s)"
  by (simp add: associateActionGroupInfo_def)

lemma associateActionGroupInfo_fst:
  "fst (fst (associateActionGroupInfo (Some ags) s)) =
     (case fst (fst (mapActionGroups ags s)) of Inl e \<Rightarrow> Some e | Inr ps \<Rightarrow> None)"
  by (simp add: associateActionGroupInfo_def Let_def split: prod.splits sum.splits)

text \<open>The list comes back from \<open>associateActionGroupInfo\<close> as it went in.\<close>

lemma associateActionGroupInfo_unchanged:
  "snd (fst (associateActionGroupInfo actionGroups_in s)) = actionGroups_in"
proof (cases actionGroups_in)
  case None
  then show ?thesis by (simp add: associateActionGroupInfo_None)
next
  case (Some ags)
  have "snd (fst (associateActionGroupInfo (Some ags) s)) =
          Some (snd (fst (mapActionGroups ags s)))"
    by (simp add: associateActionGroupInfo_def Let_def split: prod.splits sum.splits)
  then show ?thesis by (simp add: Some mapActionGroups_unchanged)
qed

lemma associateActionGroupInfo_snd:
  "snd (associateActionGroupInfo (Some ags) s) =
     (case fst (fst (mapActionGroups ags s)) of
        Inl e \<Rightarrow> snd (mapActionGroups ags s)
      | Inr ps \<Rightarrow>
         (snd (mapActionGroups ags s))\<lparr>this_agentDefinition :=
            (this_agentDefinition (snd (mapActionGroups ags s)))
              \<lparr>actionGroups := Some ((case actionGroups (this_agentDefinition (snd (mapActionGroups ags s))) of
                         None \<Rightarrow> [] | Some ex \<Rightarrow> ex) @ ps)\<rparr>\<rparr>)"
  by (simp add: associateActionGroupInfo_def Let_def split: prod.splits sum.splits)

lemma associateActionGroupInfo_frame:
  "this_agent (snd (associateActionGroupInfo ags s)) = this_agent s"
  "this_assetManagementBucket (snd (associateActionGroupInfo ags s)) = this_assetManagementBucket s"
  "permissions (world (snd (associateActionGroupInfo ags s))) = permissions (world s)"
  "env_CDK_DEFAULT_REGION (world (snd (associateActionGroupInfo ags s))) = env_CDK_DEFAULT_REGION (world s)"
  "env_CDK_DEFAULT_ACCOUNT (world (snd (associateActionGroupInfo ags s))) = env_CDK_DEFAULT_ACCOUNT (world s)"
  "filter isRoleC (children (snd (associateActionGroupInfo ags s))) = filter isRoleC (children s)"
  "filter isBucketC (children (snd (associateActionGroupInfo ags s))) = filter isBucketC (children s)"
  "agentName (this_agentDefinition (snd (associateActionGroupInfo ags s))) = agentName (this_agentDefinition s)"
  "foundationModel (this_agentDefinition (snd (associateActionGroupInfo ags s))) = foundationModel (this_agentDefinition s)"
  "agentResourceRoleArn (this_agentDefinition (snd (associateActionGroupInfo ags s))) = agentResourceRoleArn (this_agentDefinition s)"
  by (cases ags; simp add: associateActionGroupInfo_None associateActionGroupInfo_snd
        mapActionGroups_frame split: sum.splits)+

lemma associateActionGroupInfo_role_None:
  "this_agentServiceRole s = None \<Longrightarrow>
   this_agentServiceRole (snd (associateActionGroupInfo ags s)) = None"
  by (cases ags; simp add: associateActionGroupInfo_None associateActionGroupInfo_snd
        mapActionGroups_role_None split: sum.splits)

lemma addResourcePolicyForActions_frame:
  "children (snd (addResourcePolicyForActions ags s)) = children s"
  "this_agentDefinition (snd (addResourcePolicyForActions ags s)) = this_agentDefinition s"
  "this_agent (snd (addResourcePolicyForActions ags s)) = this_agent s"
  "this_agentServiceRole (snd (addResourcePolicyForActions ags s)) = this_agentServiceRole s"
  "this_assetManagementBucket (snd (addResourcePolicyForActions ags s)) = this_assetManagementBucket s"
  "tempDirs (world (snd (addResourcePolicyForActions ags s))) = tempDirs (world s)"
  by (cases ags; simp add: addResourcePolicyForActions_def forEachActionGroup_frame)+

lemma addResourcePolicyForActions_ok:
  "this_agent s \<noteq> None \<Longrightarrow> fst (addResourcePolicyForActions ags s) = None"
  by (cases ags) (auto simp add: addResourcePolicyForActions_def forEachActionGroup_grants)

lemma constructor_unfold:
  "constructor w p =
     (let r = associateActionGroupInfo (props_actionGroups p)
                (setupBucketIfRequired (props_actionGroups p)
                   (new_state w (props_agentDefinition p)))
      in (case fst (fst r) of
            Some e \<Rightarrow> (Some e, snd r)
          | None \<Rightarrow>
              addResourcePolicyForActions (props_actionGroups p) (createBedrockAgent (snd r))))"
proof -
  let ?r = "associateActionGroupInfo (props_actionGroups p)
                (setupBucketIfRequired (props_actionGroups p)
                   (new_state w (props_agentDefinition p)))"
  have u: "snd (fst ?r) = props_actionGroups p"
    by (rule associateActionGroupInfo_unchanged)
  obtain e l s2 where r: "?r = ((e, l), s2)"
    by (cases ?r) auto
  have l: "l = props_actionGroups p" using u r by simp
  show ?thesis
    unfolding constructor_def Let_def r by (simp add: l split: option.splits)
qed

text \<open>
  When no two file-based action groups share a name, the assembly fails exactly when some
  action group has no populated schema variant, with the schema error.
\<close>

lemma associate_after_setup_fst:
  "distinctFileNames ags \<Longrightarrow>
   fst (fst (associateActionGroupInfo ags (setupBucketIfRequired ags (new_state w d)))) =
     (case ags of
        None \<Rightarrow> None
      | Some l \<Rightarrow>
          if list_all (\<lambda>a. 0 < populatedVariants (schemaDefinition a)) l then None
          else Some (Error schemaErrorMessage))"
  by (cases ags)
     (simp_all add: associateActionGroupInfo_None associateActionGroupInfo_fst
        distinctFileNames_def mapActionGroups_result[OF publishable_after_setup])

lemma constructor_outcome:
  "distinctFileNames (props_actionGroups p) \<Longrightarrow>
   fst (constructor w p) =
     (case props_actionGroups p of
        None \<Rightarrow> None
      | Some l \<Rightarrow>
          if list_all (\<lambda>a. 0 < populatedVariants (schemaDefinition a)) l then None
          else Some (Error schemaErrorMessage))"
  unfolding constructor_unfold Let_def
  by (simp add: associate_after_setup_fst addResourcePolicyForActions_ok
        createBedrockAgent_frame split: option.splits)

text \<open>The sample action groups.\<close>

lemma sample_populated:
  "0 < populatedVariants (schemaDefinition pingGroup)"
  "0 < populatedVariants (schemaDefinition fileGroup)"
  "0 < populatedVariants (schemaDefinition functionGroup)"
  "\<not> 0 < populatedVariants (schemaDefinition emptyGroup)"
  by (simp_all add: populatedVariants_def pingGroup_def fileGroup_def functionGroup_def
        emptyGroup_def noSchema_def truthy_simps)

lemma sample_fileBased:
  "\<not> fileBased pingGroup" "fileBased fileGroup" "\<not> fileBased functionGroup"
  "\<not> fileBased emptyGroup"
  by (simp_all add: fileBased_def fileBranch_def pingGroup_def fileGroup_def functionGroup_def
        emptyGroup_def noSchema_def truthy_simps)

subsection \<open>The state the constructor leaves\<close>

lemma constructor_snd_None:
  "props_actionGroups p = None \<Longrightarrow>
   constructor w p = (None, createBedrockAgent (new_state w (props_agentDefinition p)))"
  by (simp add: constructor_def setupBucketIfRequired_def checkActionsRequireArtifacts_def
        associateActionGroupInfo_None addResourcePolicyForActions_def)

lemma constructor_bucket:
  "this_assetManagementBucket (snd (constructor w p)) =
     this_assetManagementBucket
       (setupBucketIfRequired (props_actionGroups p) (new_state w (props_agentDefinition p)))"
  "filter isBucketC (children (snd (constructor w p))) =
     filter isBucketC (children
       (setupBucketIfRequired (props_actionGroups p) (new_state w (props_agentDefinition p))))"
  unfolding constructor_unfold Let_def
  by (simp_all add: addResourcePolicyForActions_frame createBedrockAgent_frame
        associateActionGroupInfo_frame split: option.splits)

text \<open>
  C2. The constructor leaves a bucket in \<open>this_assetManagementBucket\<close> exactly when the
  action group list is present and one of its members has a file reference, whether the
  assembly then succeeds or fails; the scope then holds one declared bucket, and none
  otherwise. So an absent list, an empty list and a list of inline and function schemas
  only create no bucket.
\<close>

theorem constructor_bucket_iff:
  "(this_assetManagementBucket (snd (constructor w p)) \<noteq> None) =
     (\<exists>ags. props_actionGroups p = Some ags \<and>
            (\<exists>a \<in> set ags. apiSchemaFile (schemaDefinition a) \<noteq> None)) \<and>
   length (filter isBucketC (children (snd (constructor w p)))) =
     (if this_assetManagementBucket (snd (constructor w p)) \<noteq> None then 1 else 0)"
  by (cases "props_actionGroups p")
     (simp_all add: constructor_bucket setupBucketIfRequired_bucket new_state_def
        checkActionsRequireArtifacts_def list_ex_iff)

theorem constructor_bucket_iff_witness:
  "this_assetManagementBucket
     (snd (constructor sampleWorld
        \<lparr>props_agentDefinition = sampleDefinition,
         props_actionGroups = Some [pingGroup, fileGroup]\<rparr>)) \<noteq> None \<and>
   this_assetManagementBucket
     (snd (constructor sampleWorld
        \<lparr>props_agentDefinition = sampleDefinition,
         props_actionGroups = Some [pingGroup, functionGroup]\<rparr>)) = None \<and>
   this_assetManagementBucket
     (snd (constructor sampleWorld
        \<lparr>props_agentDefinition = sampleDefinition, props_actionGroups = Some []\<rparr>)) = None \<and>
   this_assetManagementBucket
     (snd (constructor sampleWorld
        \<lparr>props_agentDefinition = sampleDefinition, props_actionGroups = None\<rparr>)) = None"
  using
    constructor_bucket_iff[of sampleWorld
      "\<lparr>props_agentDefinition = sampleDefinition, props_actionGroups = Some [pingGroup, fileGroup]\<rparr>"]
    constructor_bucket_iff[of sampleWorld
      "\<lparr>props_agentDefinition = sampleDefinition, props_actionGroups = Some [pingGroup, functionGroup]\<rparr>"]
    constructor_bucket_iff[of sampleWorld
      "\<lparr>props_agentDefinition = sampleDefinition, props_actionGroups = Some []\<rparr>"]
    constructor_bucket_iff[of sampleWorld
      "\<lparr>props_agentDefinition = sampleDefinition, props_actionGroups = None\<rparr>"]
  by (simp add: pingGroup_def fileGroup_def functionGroup_def noSchema_def)

lemma createBedrockAgent_fresh:
  "this_assetManagementBucket (createBedrockAgent (new_state w d)) = None"
  "filter isBucketC (children (createBedrockAgent (new_state w d))) = []"
  "filter isDeploymentC (children (createBedrockAgent (new_state w d))) = []"
  "tempDirs (world (createBedrockAgent (new_state w d))) = tempDirs w"
  "permissions (world (createBedrockAgent (new_state w d))) = permissions w"
  "actionGroups (this_agentDefinition (createBedrockAgent (new_state w d))) = actionGroups d"
  "this_agentDefinition (createBedrockAgent (new_state w d)) =
     (if truthy (agentResourceRoleArn d) then d
      else d\<lparr>agentResourceRoleArn := Some (token ''BedrockServiceRole'' ''Arn'')\<rparr>)"
  "this_agent (createBedrockAgent (new_state w d)) =
     Some \<lparr>agentId = ''AgentBlueprint-'' @ agentName d,
           agentProps = this_agentDefinition (createBedrockAgent (new_state w d))\<rparr>"
  "last (children (createBedrockAgent (new_state w d))) =
     AgentC \<lparr>agentId = ''AgentBlueprint-'' @ agentName d,
             agentProps = this_agentDefinition (createBedrockAgent (new_state w d))\<rparr>"
  by (simp_all add: createBedrockAgent_frame new_state_def createBedrockAgent_def
        setupIAMRole_def uuidv4_def addToPolicy_def roleArn_def Let_def split_def)

text \<open>
  C10. With no action group list the constructor succeeds and does nothing for
  capabilities: no bucket, no temporary directory, no permission, and the definition's
  action groups as supplied. The agent is still declared, from the supplied definition
  (with the synthesized role's ARN when the caller gave no role).
\<close>

theorem constructor_without_actionGroups:
  assumes "props_actionGroups p = None"
  shows "fst (constructor w p) = None \<and>
     this_assetManagementBucket (snd (constructor w p)) = None \<and>
     filter isBucketC (children (snd (constructor w p))) = [] \<and>
     filter isDeploymentC (children (snd (constructor w p))) = [] \<and>
     tempDirs (world (snd (constructor w p))) = tempDirs w \<and>
     permissions (world (snd (constructor w p))) = permissions w \<and>
     actionGroups (this_agentDefinition (snd (constructor w p))) =
       actionGroups (props_agentDefinition p) \<and>
     this_agentDefinition (snd (constructor w p)) =
       (if truthy (agentResourceRoleArn (props_agentDefinition p))
        then props_agentDefinition p
        else (props_agentDefinition p)
               \<lparr>agentResourceRoleArn := Some (token ''BedrockServiceRole'' ''Arn'')\<rparr>) \<and>
     this_agent (snd (constructor w p)) =
       Some \<lparr>agentId = ''AgentBlueprint-'' @ agentName (props_agentDefinition p),
             agentProps = this_agentDefinition (snd (constructor w p))\<rparr> \<and>
     last (children (snd (constructor w p))) =
       AgentC \<lparr>agentId = ''AgentBlueprint-'' @ agentName (props_agentDefinition p),
               agentProps = this_agentDefinition (snd (constructor w p))\<rparr>"
  unfolding constructor_snd_None[OF assms] fst_conv snd_conv
  by (intro conjI createBedrockAgent_fresh refl)

theorem constructor_without_actionGroups_witness:
  "props_actionGroups
     \<lparr>props_agentDefinition = ownRoleDefinition, props_actionGroups = None\<rparr> = None \<and>
   fst (constructor sampleWorld
     \<lparr>props_agentDefinition = ownRoleDefinition, props_actionGroups = None\<rparr>) = None \<and>
   this_agent (snd (constructor sampleWorld
     \<lparr>props_agentDefinition = ownRoleDefinition, props_actionGroups = None\<rparr>)) =
     Some sampleAgent \<and>
   permissions (world (snd (constructor sampleWorld
     \<lparr>props_agentDefinition = ownRoleDefinition, props_actionGroups = None\<rparr>))) = []"
proof -
  let ?p = "\<lparr>props_agentDefinition = ownRoleDefinition, props_actionGroups = None\<rparr>"
  have h: "props_actionGroups ?p = None" by simp
  have t: "truthy (agentResourceRoleArn ownRoleDefinition)"
    by (simp add: ownRoleDefinition_def truthy_simps)
  show ?thesis
    using constructor_without_actionGroups[OF h, of sampleWorld] t
    by (simp add: sampleAgent_def sampleWorld_def ownRoleDefinition_def sampleDefinition_def)
qed

subsection \<open>The execution role after the assembly\<close>

lemma before_agent_state:
  "this_agentServiceRole
     (snd (associateActionGroupInfo ags (setupBucketIfRequired ags (new_state w d)))) = None"
  "filter isRoleC (children
     (snd (associateActionGroupInfo ags (setupBucketIfRequired ags (new_state w d))))) = []"
  "agentResourceRoleArn (this_agentDefinition
     (snd (associateActionGroupInfo ags (setupBucketIfRequired ags (new_state w d))))) =
     agentResourceRoleArn d"
  "foundationModel (this_agentDefinition
     (snd (associateActionGroupInfo ags (setupBucketIfRequired ags (new_state w d))))) =
     foundationModel d"
  "env_CDK_DEFAULT_REGION (world
     (snd (associateActionGroupInfo ags (setupBucketIfRequired ags (new_state w d))))) =
     env_CDK_DEFAULT_REGION w"
  "env_CDK_DEFAULT_ACCOUNT (world
     (snd (associateActionGroupInfo ags (setupBucketIfRequired ags (new_state w d))))) =
     env_CDK_DEFAULT_ACCOUNT w"
  by (simp_all add: associateActionGroupInfo_frame associateActionGroupInfo_role_None
        setupBucketIfRequired_frame new_state_def)

lemma createBedrockAgent_roles:
  "filter isRoleC (children (createBedrockAgent s)) =
     filter isRoleC (children s) @
     (if truthy (agentResourceRoleArn (this_agentDefinition s)) then []
      else [RoleC ''BedrockServiceRole''])"
  "this_agentServiceRole (createBedrockAgent s) =
     (if truthy (agentResourceRoleArn (this_agentDefinition s)) then this_agentServiceRole s
      else Some (fst (setupIAMRole s)))"
  "agentResourceRoleArn (this_agentDefinition (createBedrockAgent s)) =
     (if truthy (agentResourceRoleArn (this_agentDefinition s))
      then agentResourceRoleArn (this_agentDefinition s)
      else Some (roleArn (fst (setupIAMRole s))))"
  by (simp_all add: createBedrockAgent_def Let_def split_def setupIAMRole_state
        setupIAMRole_role roleArn_def)

text \<open>
  When the assembly succeeds, the role field and the declared roles are those that
  \<open>createBedrockAgent\<close> left: the policy of a synthesized role holds the model
  invocation statement and nothing else.
\<close>

lemma constructor_role:
  assumes "fst (constructor w p) = None"
  shows "filter isRoleC (children (snd (constructor w p))) =
           (if truthy (agentResourceRoleArn (props_agentDefinition p)) then []
            else [RoleC ''BedrockServiceRole''])"
    and "this_agentServiceRole (snd (constructor w p)) =
           (if truthy (agentResourceRoleArn (props_agentDefinition p)) then None
            else Some
              \<lparr>roleId = ''BedrockServiceRole'',
               assumedBy = \<lparr>service = ''bedrock.amazonaws.com'',
                   principalConditions =
                     [(''StringEquals'', ''aws:SourceAccount'', env_CDK_DEFAULT_ACCOUNT w)]\<rparr>,
               roleName = roleName (the (this_agentServiceRole (snd (constructor w p)))),
               roleDescription = ''Service role for Amazon Bedrock'',
               policy = [modelInvocationStatement (env_CDK_DEFAULT_REGION w)
                           (foundationModel (props_agentDefinition p))]\<rparr>)"
    and "agentResourceRoleArn (this_agentDefinition (snd (constructor w p))) =
           (if truthy (agentResourceRoleArn (props_agentDefinition p))
            then agentResourceRoleArn (props_agentDefinition p)
            else Some (token ''BedrockServiceRole'' ''Arn''))"
proof -
  let ?s2 = "snd (associateActionGroupInfo (props_actionGroups p)
                (setupBucketIfRequired (props_actionGroups p)
                   (new_state w (props_agentDefinition p))))"
  have ok: "fst (fst (associateActionGroupInfo (props_actionGroups p)
                (setupBucketIfRequired (props_actionGroups p)
                   (new_state w (props_agentDefinition p))))) = None"
    using assms unfolding constructor_unfold Let_def by (simp split: option.splits)
  have c: "constructor w p =
      addResourcePolicyForActions (props_actionGroups p) (createBedrockAgent ?s2)"
    unfolding constructor_unfold Let_def using ok by simp
  show "filter isRoleC (children (snd (constructor w p))) =
           (if truthy (agentResourceRoleArn (props_agentDefinition p)) then []
            else [RoleC ''BedrockServiceRole''])"
    unfolding c
    by (simp add: addResourcePolicyForActions_frame createBedrockAgent_roles before_agent_state)
  show "this_agentServiceRole (snd (constructor w p)) =
           (if truthy (agentResourceRoleArn (props_agentDefinition p)) then None
            else Some
              \<lparr>roleId = ''BedrockServiceRole'',
               assumedBy = \<lparr>service = ''bedrock.amazonaws.com'',
                   principalConditions =
                     [(''StringEquals'', ''aws:SourceAccount'', env_CDK_DEFAULT_ACCOUNT w)]\<rparr>,
               roleName = roleName (the (this_agentServiceRole (snd (constructor w p)))),
               roleDescription = ''Service role for Amazon Bedrock'',
               policy = [modelInvocationStatement (env_CDK_DEFAULT_REGION w)
                           (foundationModel (props_agentDefinition p))]\<rparr>)"
    unfolding c
    by (simp add: addResourcePolicyForActions_frame createBedrockAgent_roles before_agent_state
          setupIAMRole_role)
  show "agentResourceRoleArn (this_agentDefinition (snd (constructor w p))) =
           (if truthy (agentResourceRoleArn (props_agentDefinition p))
            then agentResourceRoleArn (props_agentDefinition p)
            else Some (token ''BedrockServiceRole'' ''Arn''))"
    unfolding c
    by (simp add: addResourcePolicyForActions_frame createBedrockAgent_roles before_agent_state
          setupIAMRole_role roleArn_def)
qed

text \<open>
  C4. In an assembly that succeeds, one role is declared when the agent definition has
  no role reference (undefined or empty) and none when it has one. The synthesized role
  is referenced by the definition; the one statement of its policy that allows
  \<^verbatim>\<open>bedrock:InvokeModel\<close> names the single resource
  \<^verbatim>\<open>arn:aws:bedrock:<region>::foundation-model/<foundationModel>\<close>; and the role is
  assumed by \<^verbatim>\<open>bedrock.amazonaws.com\<close> under the condition that the source account
  equals the account of the environment.
\<close>

theorem execution_role_synthesis:
  assumes "fst (constructor w p) = None"
  shows "length (filter isRoleC (children (snd (constructor w p)))) =
           (if truthy (agentResourceRoleArn (props_agentDefinition p)) then 0 else 1) \<and>
         (truthy (agentResourceRoleArn (props_agentDefinition p)) \<longrightarrow>
            this_agentServiceRole (snd (constructor w p)) = None \<and>
            agentResourceRoleArn (this_agentDefinition (snd (constructor w p))) =
              agentResourceRoleArn (props_agentDefinition p)) \<and>
         (\<not> truthy (agentResourceRoleArn (props_agentDefinition p)) \<longrightarrow>
            (\<exists>r st. this_agentServiceRole (snd (constructor w p)) = Some r \<and>
               agentResourceRoleArn (this_agentDefinition (snd (constructor w p))) =
                 Some (roleArn r) \<and>
               filter (\<lambda>x. actions x = [''bedrock:InvokeModel'']) (policy r) = [st] \<and>
               effect st = ALLOW \<and>
               resources st =
                 [''arn:aws:bedrock:'' @ interpolate (env_CDK_DEFAULT_REGION w) @
                  ''::foundation-model/'' @
                  interpolate (foundationModel (props_agentDefinition p))] \<and>
               assumedBy r =
                 \<lparr>service = ''bedrock.amazonaws.com'',
                  principalConditions =
                    [(''StringEquals'', ''aws:SourceAccount'', env_CDK_DEFAULT_ACCOUNT w)]\<rparr>))"
proof (cases "truthy (agentResourceRoleArn (props_agentDefinition p))")
  case True
  then show ?thesis using constructor_role[OF assms] by simp
next
  case False
  let ?st = "modelInvocationStatement (env_CDK_DEFAULT_REGION w)
               (foundationModel (props_agentDefinition p))"
  obtain r where r: "this_agentServiceRole (snd (constructor w p)) = Some r"
    and pol: "policy r = [?st]"
    and rid: "roleId r = ''BedrockServiceRole''"
    and asm: "assumedBy r =
                 \<lparr>service = ''bedrock.amazonaws.com'',
                  principalConditions =
                    [(''StringEquals'', ''aws:SourceAccount'', env_CDK_DEFAULT_ACCOUNT w)]\<rparr>"
    using constructor_role(2)[OF assms] False by simp
  have st: "actions ?st = [''bedrock:InvokeModel'']" "effect ?st = ALLOW"
    "resources ?st =
       [''arn:aws:bedrock:'' @ interpolate (env_CDK_DEFAULT_REGION w) @
        ''::foundation-model/'' @ interpolate (foundationModel (props_agentDefinition p))]"
    by (simp_all add: modelInvocationStatement_def)
  have f: "filter (\<lambda>x. actions x = [''bedrock:InvokeModel'']) (policy r) = [?st]"
    unfolding pol using st(1) by simp
  have arn: "agentResourceRoleArn (this_agentDefinition (snd (constructor w p))) =
                 Some (roleArn r)"
    using constructor_role(3)[OF assms] False by (simp add: roleArn_def rid)
  have n: "length (filter isRoleC (children (snd (constructor w p)))) = 1"
    using constructor_role(1)[OF assms] False by simp
  have "\<exists>r st. this_agentServiceRole (snd (constructor w p)) = Some r \<and>
               agentResourceRoleArn (this_agentDefinition (snd (constructor w p))) =
                 Some (roleArn r) \<and>
               filter (\<lambda>x. actions x = [''bedrock:InvokeModel'']) (policy r) = [st] \<and>
               effect st = ALLOW \<and>
               resources st =
                 [''arn:aws:bedrock:'' @ interpolate (env_CDK_DEFAULT_REGION w) @
                  ''::foundation-model/'' @
                  interpolate (foundationModel (props_agentDefinition p))] \<and>
               assumedBy r =
                 \<lparr>service = ''bedrock.amazonaws.com'',
                  principalConditions =
                    [(''StringEquals'', ''aws:SourceAccount'', env_CDK_DEFAULT_ACCOUNT w)]\<rparr>"
    by (intro exI[of _ r] exI[of _ ?st] conjI r arn f st(2) st(3) asm)
  with False n show ?thesis by simp
qed

theorem execution_role_synthesis_witness:
  "fst (constructor sampleWorld
      \<lparr>props_agentDefinition = sampleDefinition,
       props_actionGroups = Some [pingGroup, fileGroup]\<rparr>) = None \<and>
   length (filter isRoleC (children (snd (constructor sampleWorld
      \<lparr>props_agentDefinition = sampleDefinition,
       props_actionGroups = Some [pingGroup, fileGroup]\<rparr>)))) = 1 \<and>
   (\<exists>r st. this_agentServiceRole (snd (constructor sampleWorld
      \<lparr>props_agentDefinition = sampleDefinition,
       props_actionGroups = Some [pingGroup, fileGroup]\<rparr>)) = Some r \<and>
      filter (\<lambda>x. actions x = [''bedrock:InvokeModel'']) (policy r) = [st] \<and>
      resources st = [''arn:aws:bedrock:us-east-1::foundation-model/anthropic.claude-v2'']) \<and>
   fst (constructor sampleWorld
      \<lparr>props_agentDefinition = ownRoleDefinition, props_actionGroups = Some [pingGroup]\<rparr>)
     = None \<and>
   length (filter isRoleC (children (snd (constructor sampleWorld
      \<lparr>props_agentDefinition = ownRoleDefinition, props_actionGroups = Some [pingGroup]\<rparr>))))
     = 0"
proof -
  let ?p = "\<lparr>props_agentDefinition = sampleDefinition,
             props_actionGroups = Some [pingGroup, fileGroup]\<rparr>"
  let ?q = "\<lparr>props_agentDefinition = ownRoleDefinition, props_actionGroups = Some [pingGroup]\<rparr>"
  have pv: "0 < populatedVariants (schemaDefinition pingGroup)"
    "0 < populatedVariants (schemaDefinition fileGroup)"
    by (simp_all add: populatedVariants_def pingGroup_def fileGroup_def noSchema_def truthy_simps)
  have dp: "distinctFileNames (props_actionGroups ?p)"
    and dq: "distinctFileNames (props_actionGroups ?q)"
    by (simp_all add: distinctFileNames_def sample_fileBased)
  have okp: "fst (constructor sampleWorld ?p) = None"
    and okq: "fst (constructor sampleWorld ?q) = None"
    using pv by (simp_all add: constructor_outcome[OF dp] constructor_outcome[OF dq])
  have tp: "\<not> truthy (agentResourceRoleArn (props_agentDefinition ?p))"
    and tq: "truthy (agentResourceRoleArn (props_agentDefinition ?q))"
    by (simp_all add: sampleDefinition_def ownRoleDefinition_def truthy_simps)
  have ip: "interpolate (env_CDK_DEFAULT_REGION sampleWorld) = ''us-east-1''"
    "interpolate (foundationModel (props_agentDefinition ?p)) = ''anthropic.claude-v2''"
    by (simp_all add: interpolate_def sampleWorld_def sampleDefinition_def)
  from execution_role_synthesis[OF okp] tp obtain r st where
    "this_agentServiceRole (snd (constructor sampleWorld ?p)) = Some r"
    "filter (\<lambda>x. actions x = [''bedrock:InvokeModel'']) (policy r) = [st]"
    "resources st =
       [''arn:aws:bedrock:'' @ interpolate (env_CDK_DEFAULT_REGION sampleWorld) @
        ''::foundation-model/'' @ interpolate (foundationModel (props_agentDefinition ?p))]"
    by blast
  then have ex: "\<exists>r st. this_agentServiceRole (snd (constructor sampleWorld ?p)) = Some r \<and>
      filter (\<lambda>x. actions x = [''bedrock:InvokeModel'']) (policy r) = [st] \<and>
      resources st = [''arn:aws:bedrock:us-east-1::foundation-model/anthropic.claude-v2'']"
    unfolding ip by auto
  have np: "length (filter isRoleC (children (snd (constructor sampleWorld ?p)))) = 1"
    using execution_role_synthesis[OF okp] tp by simp
  have nq: "length (filter isRoleC (children (snd (constructor sampleWorld ?q)))) = 0"
    using execution_role_synthesis[OF okq] tq by simp
  show ?thesis using okp okq ex np nq by blast
qed

subsection \<open>An environment without region or account\<close>

text \<open>
  C7 as stated fails: with no region and no account in the environment and no role in the
  definition, the constructor completes, and the scope holds the declared role and agent.
\<close>

theorem missing_environment_counterexample:
  "\<not> truthy (agentResourceRoleArn sampleDefinition) \<and>
   env_CDK_DEFAULT_REGION bareWorld = None \<and>
   env_CDK_DEFAULT_ACCOUNT bareWorld = None \<and>
   fst (constructor bareWorld
          \<lparr>props_agentDefinition = sampleDefinition, props_actionGroups = None\<rparr>) = None \<and>
   children (snd (constructor bareWorld
          \<lparr>props_agentDefinition = sampleDefinition, props_actionGroups = None\<rparr>)) =
     [RoleC ''BedrockServiceRole'',
      AgentC \<lparr>agentId = ''AgentBlueprint-helper'',
              agentProps = sampleDefinition
                \<lparr>agentResourceRoleArn := Some ''<BedrockServiceRole.Arn>''\<rparr>\<rparr>]"
  by (simp add: constructor_snd_None createBedrockAgent_no_role new_state_def
        sampleDefinition_def bareWorld_def sampleWorld_def truthy_simps token_def)

text \<open>
  C7, amended. When a role has to be synthesized and the region or the account is absent
  from the environment, the assembly does not fail for it, since nothing checks either:
  once the capabilities are assembled the constructor completes and declares the role and
  the agent. The role's model invocation resource is built with \<open>interpolate\<close>, which
  prints an absent region as the text \<^verbatim>\<open>undefined\<close>, and the trust condition carries
  the account as it is, absent or not.
\<close>

theorem missing_environment_not_checked:
  assumes "\<not> truthy (agentResourceRoleArn (props_agentDefinition p))"
    and "env_CDK_DEFAULT_REGION w = None \<or> env_CDK_DEFAULT_ACCOUNT w = None"
    and "capabilitiesAssembled w p"
  shows "fst (constructor w p) = None \<and>
         filter isRoleC (children (snd (constructor w p))) = [RoleC ''BedrockServiceRole''] \<and>
         this_agent (snd (constructor w p)) \<noteq> None \<and>
         (\<exists>r st. this_agentServiceRole (snd (constructor w p)) = Some r \<and>
            policy r = [st] \<and>
            resources st =
              [''arn:aws:bedrock:'' @
               (case env_CDK_DEFAULT_REGION w of None \<Rightarrow> ''undefined'' | Some x \<Rightarrow> x) @
               ''::foundation-model/'' @
               interpolate (foundationModel (props_agentDefinition p))] \<and>
            principalConditions (assumedBy r) =
              [(''StringEquals'', ''aws:SourceAccount'', env_CDK_DEFAULT_ACCOUNT w)] \<and>
            (env_CDK_DEFAULT_REGION w = None \<and>
               resources st =
                 [''arn:aws:bedrock:undefined::foundation-model/'' @
                  interpolate (foundationModel (props_agentDefinition p))] \<or>
             env_CDK_DEFAULT_ACCOUNT w = None \<and>
               principalConditions (assumedBy r) =
                 [(''StringEquals'', ''aws:SourceAccount'', None)]))"
proof -
  have ok: "fst (constructor w p) = None"
    using assms(3) unfolding capabilitiesAssembled_def constructor_unfold Let_def
    by (simp add: addResourcePolicyForActions_ok createBedrockAgent_frame)
  have roles: "filter isRoleC (children (snd (constructor w p))) = [RoleC ''BedrockServiceRole'']"
    using constructor_role(1)[OF ok] assms(1) by simp
  have agent: "this_agent (snd (constructor w p)) \<noteq> None"
    using assms(3) unfolding capabilitiesAssembled_def constructor_unfold Let_def
    by (simp add: addResourcePolicyForActions_frame createBedrockAgent_frame)
  let ?st = "modelInvocationStatement (env_CDK_DEFAULT_REGION w)
               (foundationModel (props_agentDefinition p))"
  obtain r where r: "this_agentServiceRole (snd (constructor w p)) = Some r"
    and pol: "policy r = [?st]"
    and asm: "principalConditions (assumedBy r) =
                [(''StringEquals'', ''aws:SourceAccount'', env_CDK_DEFAULT_ACCOUNT w)]"
    using constructor_role(2)[OF ok] assms(1) by simp
  have res: "resources ?st =
                 [''arn:aws:bedrock:'' @
                  (case env_CDK_DEFAULT_REGION w of None \<Rightarrow> ''undefined'' | Some x \<Rightarrow> x) @
                  ''::foundation-model/'' @
                  interpolate (foundationModel (props_agentDefinition p))]"
    by (simp add: modelInvocationStatement_def interpolate_def)
  have absent: "env_CDK_DEFAULT_REGION w = None \<and>
               resources ?st =
                 [''arn:aws:bedrock:undefined::foundation-model/'' @
                  interpolate (foundationModel (props_agentDefinition p))] \<or>
             env_CDK_DEFAULT_ACCOUNT w = None \<and>
               principalConditions (assumedBy r) =
                 [(''StringEquals'', ''aws:SourceAccount'', None)]"
    using assms(2) res asm by auto
  have "\<exists>r st. this_agentServiceRole (snd (constructor w p)) = Some r \<and>
               policy r = [st] \<and>
               resources st =
                 [''arn:aws:bedrock:'' @
                  (case env_CDK_DEFAULT_REGION w of None \<Rightarrow> ''undefined'' | Some x \<Rightarrow> x) @
                  ''::foundation-model/'' @
                  interpolate (foundationModel (props_agentDefinition p))] \<and>
               principalConditions (assumedBy r) =
                 [(''StringEquals'', ''aws:SourceAccount'', env_CDK_DEFAULT_ACCOUNT w)] \<and>
               (env_CDK_DEFAULT_REGION w = None \<and>
                  resources st =
                    [''arn:aws:bedrock:undefined::foundation-model/'' @
                     interpolate (foundationModel (props_agentDefinition p))] \<or>
                env_CDK_DEFAULT_ACCOUNT w = None \<and>
                  principalConditions (assumedBy r) =
                    [(''StringEquals'', ''aws:SourceAccount'', None)])"
    by (intro exI[of _ r] exI[of _ ?st] conjI r pol res asm absent)
  with ok roles agent show ?thesis by simp
qed

theorem missing_environment_not_checked_witness:
  "\<not> truthy (agentResourceRoleArn sampleDefinition) \<and>
   env_CDK_DEFAULT_REGION bareWorld = None \<and>
   capabilitiesAssembled bareWorld
     \<lparr>props_agentDefinition = sampleDefinition,
      props_actionGroups = Some [pingGroup, fileGroup]\<rparr> \<and>
   fst (constructor bareWorld
     \<lparr>props_agentDefinition = sampleDefinition,
      props_actionGroups = Some [pingGroup, fileGroup]\<rparr>) = None \<and>
   (\<exists>r st. this_agentServiceRole (snd (constructor bareWorld
        \<lparr>props_agentDefinition = sampleDefinition,
         props_actionGroups = Some [pingGroup, fileGroup]\<rparr>)) = Some r \<and>
      policy r = [st] \<and>
      resources st = [''arn:aws:bedrock:undefined::foundation-model/anthropic.claude-v2''] \<and>
      principalConditions (assumedBy r) = [(''StringEquals'', ''aws:SourceAccount'', None)])"
proof -
  let ?p = "\<lparr>props_agentDefinition = sampleDefinition,
             props_actionGroups = Some [pingGroup, fileGroup]\<rparr>"
  have t: "\<not> truthy (agentResourceRoleArn (props_agentDefinition ?p))"
    by (simp add: sampleDefinition_def truthy_simps)
  have e: "env_CDK_DEFAULT_REGION bareWorld = None \<or> env_CDK_DEFAULT_ACCOUNT bareWorld = None"
    "env_CDK_DEFAULT_REGION bareWorld = None" "env_CDK_DEFAULT_ACCOUNT bareWorld = None"
    by (simp_all add: bareWorld_def)
  have d: "distinctFileNames (Some [pingGroup, fileGroup])"
    by (simp add: distinctFileNames_def sample_fileBased)
  have c: "capabilitiesAssembled bareWorld ?p"
    unfolding capabilitiesAssembled_def
    using associate_after_setup_fst[OF d, of bareWorld sampleDefinition]
    by (simp add: sample_populated)
  have fm: "interpolate (foundationModel (props_agentDefinition ?p)) = ''anthropic.claude-v2''"
    by (simp add: interpolate_def sampleDefinition_def)
  note P = missing_environment_not_checked[OF t e(1) c]
  have okp: "fst (constructor bareWorld ?p) = None" using P by simp
  from P obtain r st where
    "this_agentServiceRole (snd (constructor bareWorld ?p)) = Some r" "policy r = [st]"
    "resources st =
       [''arn:aws:bedrock:'' @
        (case env_CDK_DEFAULT_REGION bareWorld of None \<Rightarrow> ''undefined'' | Some x \<Rightarrow> x) @
        ''::foundation-model/'' @ interpolate (foundationModel (props_agentDefinition ?p))]"
    "principalConditions (assumedBy r) =
       [(''StringEquals'', ''aws:SourceAccount'', env_CDK_DEFAULT_ACCOUNT bareWorld)]"
    by blast
  then have "\<exists>r st. this_agentServiceRole (snd (constructor bareWorld ?p)) = Some r \<and>
      policy r = [st] \<and>
      resources st = [''arn:aws:bedrock:undefined::foundation-model/anthropic.claude-v2''] \<and>
      principalConditions (assumedBy r) = [(''StringEquals'', ''aws:SourceAccount'', None)]"
    unfolding fm e(2) e(3) by auto
  then show ?thesis using t e(2) c okp by simp
qed

subsection \<open>Published artifacts and staging directories\<close>

lemma deployAssetsToBucket_tempDirs:
  "length (tempDirs (world (snd (deployAssetsToBucket files pre s)))) =
     Suc (length (tempDirs (world s)))"
  "map fst (tempDirs (world (snd (deployAssetsToBucket files pre s)))) =
     map fst (tempDirs (world s)) @
       [os_tmpdir (world s) @ ''/cdk-'' @ take 6 (fst (uuidv4 s))]"
  by (simp_all add: deployAssetsToBucket_def mkdtempSync_def writeFilesToDir_def uuidv4_def
        join_def Let_def split_def comp_def split: option.splits)

lemma createBedrockAgent_deployments:
  "filter isDeploymentC (children (createBedrockAgent s)) = filter isDeploymentC (children s)"
  by (simp add: createBedrockAgent_def Let_def split_def setupIAMRole_state)

lemma constructor_deployments:
  assumes "fst (constructor w p) = None" and "props_actionGroups p = Some ags"
    and "distinct (map actionGroupName (filter fileBased ags))"
  shows "length (filter isDeploymentC (children (snd (constructor w p)))) =
           length (filter fileBased ags)"
proof -
  let ?s1 = "setupBucketIfRequired (Some ags) (new_state w (props_agentDefinition p))"
  have d: "distinctFileNames (props_actionGroups p)"
    using assms(2,3) by (simp add: distinctFileNames_def)
  have pop: "list_all (\<lambda>a. 0 < populatedVariants (schemaDefinition a)) ags"
    using assms(1,2) constructor_outcome[OF d, of w] by (simp split: if_splits)
  have pub: "publishable ?s1 ags"
    by (rule publishable_after_setup[OF assms(3)])
  have m: "fst (fst (mapActionGroups ags ?s1)) =
      Inr (map (\<lambda>a. actionGroupProperty a
                  (resolvedFields (schemaDefinition a) (actionGroupName a))) ags)"
    using mapActionGroups_result[OF pub] pop by simp
  have ok: "fst (fst (associateActionGroupInfo (Some ags) ?s1)) = None"
    unfolding associateActionGroupInfo_fst m by simp
  have c: "constructor w p =
      addResourcePolicyForActions (Some ags)
        (createBedrockAgent (snd (associateActionGroupInfo (Some ags) ?s1)))"
    unfolding constructor_unfold Let_def assms(2) using ok by simp
  have ch: "children (snd (associateActionGroupInfo (Some ags) ?s1)) =
              children (snd (mapActionGroups ags ?s1))"
    unfolding associateActionGroupInfo_snd m by simp
  have s1: "filter isDeploymentC (children ?s1) = []"
    by (simp add: setupBucketIfRequired_bucket new_state_def)
  show ?thesis
    unfolding c
    by (simp add: addResourcePolicyForActions_frame createBedrockAgent_deployments ch
          mapActionGroups_deployments[OF pub pop] s1)
qed

text \<open>
  C1 fails on the code. \<open>addSchemaAccessForAgents\<close> runs while the schemas are resolved,
  before \<open>createBedrockAgent\<close> sets \<open>this_agentServiceRole\<close>, so it always returns
  at its first line. For the definition without a role and one file-based action group the
  assembly succeeds, one artifact is published, a role is synthesized, and the role's
  policy is the model invocation statement alone: no \<^verbatim>\<open>s3:GetObject\<close> statement.
\<close>

theorem schema_access_not_granted:
  "fst (constructor sampleWorld
      \<lparr>props_agentDefinition = sampleDefinition, props_actionGroups = Some [fileGroup]\<rparr>) = None \<and>
   length (filter fileBased [fileGroup]) = 1 \<and>
   length (filter isDeploymentC (children (snd (constructor sampleWorld
      \<lparr>props_agentDefinition = sampleDefinition, props_actionGroups = Some [fileGroup]\<rparr>)))) = 1 \<and>
   map_option policy (this_agentServiceRole (snd (constructor sampleWorld
      \<lparr>props_agentDefinition = sampleDefinition, props_actionGroups = Some [fileGroup]\<rparr>))) =
     Some [modelInvocationStatement (Some ''us-east-1'') (Some ''anthropic.claude-v2'')] \<and>
   map_option (\<lambda>r. length (filter (\<lambda>st. actions st = [''s3:GetObject'']) (policy r)))
     (this_agentServiceRole (snd (constructor sampleWorld
      \<lparr>props_agentDefinition = sampleDefinition, props_actionGroups = Some [fileGroup]\<rparr>))) =
     Some 0"
proof -
  let ?p = "\<lparr>props_agentDefinition = sampleDefinition, props_actionGroups = Some [fileGroup]\<rparr>"
  have fb: "fileBased fileGroup"
    by (rule sample_fileBased)
  have d: "distinctFileNames (props_actionGroups ?p)"
    by (simp add: distinctFileNames_def fb)
  have ok: "fst (constructor sampleWorld ?p) = None"
    by (simp add: constructor_outcome[OF d] sample_populated)
  have n: "length (filter isDeploymentC (children (snd (constructor sampleWorld ?p)))) = 1"
    using constructor_deployments[OF ok, of "[fileGroup]"] fb by simp
  have t: "\<not> truthy (agentResourceRoleArn (props_agentDefinition ?p))"
    by (simp add: sampleDefinition_def truthy_simps)
  have e: "env_CDK_DEFAULT_REGION sampleWorld = Some ''us-east-1''"
    "foundationModel (props_agentDefinition ?p) = Some ''anthropic.claude-v2''"
    by (simp_all add: sampleWorld_def sampleDefinition_def)
  obtain r where r: "this_agentServiceRole (snd (constructor sampleWorld ?p)) = Some r"
    and pol: "policy r =
      [modelInvocationStatement (Some ''us-east-1'') (Some ''anthropic.claude-v2'')]"
    using constructor_role(2)[OF ok] t unfolding e by simp
  have z: "length (filter (\<lambda>st. actions st = [''s3:GetObject'']) (policy r)) = 0"
    unfolding pol by (simp add: modelInvocationStatement_def)
  show ?thesis using ok fb n r pol z by simp
qed

text \<open>
  C8 fails on the code. The \<^verbatim>\<open>finally\<close> block of \<open>deployAssetsToBucket\<close> removes
  nothing: after the call the staging directory is still there with the file in it, when
  the deployment was declared and when declaring it failed.
\<close>

theorem staging_directory_left_behind:
  "tempDirs (world storeState) = [] \<and>
   fst (deployAssetsToBucket [(''OpenAPISchema_orders.json'', ''openapi: 3.0.0'')]
          ''orders'' storeState) =
     Inr \<lparr>deploymentId = ''AssetDeployment-orders'', sources = [''/tmp/cdk-0f8fad''],
          destinationBucket = sampleBucket, destinationKeyPrefix = ''orders''\<rparr> \<and>
   tempDirs (world (snd (deployAssetsToBucket
       [(''OpenAPISchema_orders.json'', ''openapi: 3.0.0'')] ''orders'' storeState))) =
     [(''/tmp/cdk-0f8fad'', [(''OpenAPISchema_orders.json'', ''openapi: 3.0.0'')])] \<and>
   fst (deployAssetsToBucket [(''OpenAPISchema_orders.json'', ''openapi: 3.0.0'')]
          ''orders'' (new_state sampleWorld sampleDefinition)) =
     Inl (TypeError ''destinationBucket is undefined'') \<and>
   tempDirs (world (snd (deployAssetsToBucket
       [(''OpenAPISchema_orders.json'', ''openapi: 3.0.0'')] ''orders''
       (new_state sampleWorld sampleDefinition)))) =
     [(''/tmp/cdk-0f8fad'', [(''OpenAPISchema_orders.json'', ''openapi: 3.0.0'')])]"
  by (simp add: deployAssetsToBucket_def mkdtempSync_def writeFilesToDir_def uuidv4_def
        join_def Let_def split_def storeState_def new_state_def sampleWorld_def)

subsection \<open>Wiring of capabilities\<close>

lemma addResourcePolicyForActions_grants:
  assumes "this_agent s = Some a"
  shows "fst (addResourcePolicyForActions actionGroups_in s) = None \<and>
     take (length (permissions (world s)))
       (permissions (world (snd (addResourcePolicyForActions actionGroups_in s)))) =
       permissions (world s) \<and>
     length (drop (length (permissions (world s)))
       (permissions (world (snd (addResourcePolicyForActions actionGroups_in s))))) =
       length (filter (\<lambda>x. lambdaFunc x \<noteq> None)
         (case actionGroups_in of None \<Rightarrow> [] | Some ags \<Rightarrow> ags)) \<and>
     map permissionFunction (drop (length (permissions (world s)))
       (permissions (world (snd (addResourcePolicyForActions actionGroups_in s))))) =
       List.map_filter lambdaFunc (case actionGroups_in of None \<Rightarrow> [] | Some ags \<Rightarrow> ags) \<and>
     list_all (\<lambda>g. permissionAction g = ''lambda:InvokeFunction'' \<and>
                   principal g = \<lparr>service = ''bedrock.amazonaws.com'', principalConditions = []\<rparr> \<and>
                   sourceArn g = attrAgentArn a)
       (drop (length (permissions (world s)))
         (permissions (world (snd (addResourcePolicyForActions actionGroups_in s)))))"
proof (cases actionGroups_in)
  case None
  then show ?thesis
    by (simp add: addResourcePolicyForActions_def List.map_filter_simps)
next
  case (Some ags)
  from forEachActionGroup_grants[OF assms, of ags] obtain new where
    e: "fst (forEachActionGroup ags s) = None" and
    n: "permissions (world (snd (forEachActionGroup ags s))) = permissions (world s) @ new"
       "map permissionFunction new = List.map_filter lambdaFunc ags"
       "list_all (\<lambda>g. permissionAction g = ''lambda:InvokeFunction'' \<and>
                    principal g = \<lparr>service = ''bedrock.amazonaws.com'', principalConditions = []\<rparr> \<and>
                    sourceArn g = attrAgentArn a) new"
    by blast
  have len: "length new = length (filter (\<lambda>x. lambdaFunc x \<noteq> None) ags)"
    using arg_cong[OF n(2), of length] by (simp add: List.map_filter_def)
  show ?thesis
    using e n(2,3) len by (simp add: Some addResourcePolicyForActions_def n(1))
qed

text \<open>The permissions pass of a successful assembly runs on the agent just declared.\<close>

lemma constructor_permissions_pass:
  assumes "fst (constructor w p) = None"
  shows "\<exists>s a. constructor w p = addResourcePolicyForActions (props_actionGroups p) s \<and>
           this_agent s = Some a \<and> permissions (world s) = permissions w \<and>
           this_agent (snd (constructor w p)) = Some a"
proof -
  let ?r = "associateActionGroupInfo (props_actionGroups p)
              (setupBucketIfRequired (props_actionGroups p)
                 (new_state w (props_agentDefinition p)))"
  let ?s = "createBedrockAgent (snd ?r)"
  let ?a = "\<lparr>agentId = ''AgentBlueprint-'' @ agentName (this_agentDefinition (snd ?r)),
             agentProps = this_agentDefinition ?s\<rparr>"
  have ok: "fst (fst ?r) = None"
    using assms unfolding constructor_unfold Let_def by (simp split: option.splits)
  have c: "constructor w p = addResourcePolicyForActions (props_actionGroups p) ?s"
    unfolding constructor_unfold Let_def using ok by simp
  have a: "this_agent ?s = Some ?a"
    by (rule createBedrockAgent_frame)
  have pw: "permissions (world ?s) = permissions w"
    by (simp add: createBedrockAgent_frame associateActionGroupInfo_frame
          setupBucketIfRequired_frame new_state_def)
  have fin: "this_agent (snd (constructor w p)) = Some ?a"
    unfolding c by (simp add: addResourcePolicyForActions_frame a)
  show ?thesis
    by (intro exI[of _ ?s] exI[of _ ?a] conjI c a pw fin)
qed

text \<open>
  C5. Once the agent exists, \<open>addResourcePolicyForActions\<close> raises no error and appends
  to the permissions one grant per action group that has a Lambda function, in input
  order and on that function; action groups without one are passed over. Every grant
  allows \<^verbatim>\<open>lambda:InvokeFunction\<close> to the principal \<^verbatim>\<open>bedrock.amazonaws.com\<close> with
  the agent's ARN as source ARN. An absent list issues no grant. So an assembly that
  succeeds leaves the permissions it found followed by these grants, whose source ARN is
  the ARN of the agent it declared.
\<close>

theorem invocation_grants:
  "(this_agent s = Some a \<longrightarrow>
     fst (addResourcePolicyForActions actionGroups_in s) = None \<and>
     take (length (permissions (world s)))
       (permissions (world (snd (addResourcePolicyForActions actionGroups_in s)))) =
       permissions (world s) \<and>
     length (drop (length (permissions (world s)))
       (permissions (world (snd (addResourcePolicyForActions actionGroups_in s))))) =
       length (filter (\<lambda>x. lambdaFunc x \<noteq> None)
         (case actionGroups_in of None \<Rightarrow> [] | Some ags \<Rightarrow> ags)) \<and>
     map permissionFunction (drop (length (permissions (world s)))
       (permissions (world (snd (addResourcePolicyForActions actionGroups_in s))))) =
       List.map_filter lambdaFunc (case actionGroups_in of None \<Rightarrow> [] | Some ags \<Rightarrow> ags) \<and>
     list_all (\<lambda>g. permissionAction g = ''lambda:InvokeFunction'' \<and>
                   principal g = \<lparr>service = ''bedrock.amazonaws.com'', principalConditions = []\<rparr> \<and>
                   sourceArn g = attrAgentArn a)
       (drop (length (permissions (world s)))
         (permissions (world (snd (addResourcePolicyForActions actionGroups_in s)))))) \<and>
   (fst (constructor w p) = None \<longrightarrow>
     take (length (permissions w)) (permissions (world (snd (constructor w p)))) =
       permissions w \<and>
     length (drop (length (permissions w)) (permissions (world (snd (constructor w p))))) =
       length (filter (\<lambda>x. lambdaFunc x \<noteq> None)
         (case props_actionGroups p of None \<Rightarrow> [] | Some ags \<Rightarrow> ags)) \<and>
     map permissionFunction
       (drop (length (permissions w)) (permissions (world (snd (constructor w p))))) =
       List.map_filter lambdaFunc (case props_actionGroups p of None \<Rightarrow> [] | Some ags \<Rightarrow> ags) \<and>
     list_all (\<lambda>g. permissionAction g = ''lambda:InvokeFunction'' \<and>
                   principal g = \<lparr>service = ''bedrock.amazonaws.com'', principalConditions = []\<rparr> \<and>
                   Some (sourceArn g) =
                     map_option attrAgentArn (this_agent (snd (constructor w p))))
       (drop (length (permissions w)) (permissions (world (snd (constructor w p))))))"
proof (rule conjI)
  show "this_agent s = Some a \<longrightarrow>
     fst (addResourcePolicyForActions actionGroups_in s) = None \<and>
     take (length (permissions (world s)))
       (permissions (world (snd (addResourcePolicyForActions actionGroups_in s)))) =
       permissions (world s) \<and>
     length (drop (length (permissions (world s)))
       (permissions (world (snd (addResourcePolicyForActions actionGroups_in s))))) =
       length (filter (\<lambda>x. lambdaFunc x \<noteq> None)
         (case actionGroups_in of None \<Rightarrow> [] | Some ags \<Rightarrow> ags)) \<and>
     map permissionFunction (drop (length (permissions (world s)))
       (permissions (world (snd (addResourcePolicyForActions actionGroups_in s))))) =
       List.map_filter lambdaFunc (case actionGroups_in of None \<Rightarrow> [] | Some ags \<Rightarrow> ags) \<and>
     list_all (\<lambda>g. permissionAction g = ''lambda:InvokeFunction'' \<and>
                   principal g = \<lparr>service = ''bedrock.amazonaws.com'', principalConditions = []\<rparr> \<and>
                   sourceArn g = attrAgentArn a)
       (drop (length (permissions (world s)))
         (permissions (world (snd (addResourcePolicyForActions actionGroups_in s)))))"
    by (rule impI) (rule addResourcePolicyForActions_grants)
next
  show "fst (constructor w p) = None \<longrightarrow>
     take (length (permissions w)) (permissions (world (snd (constructor w p)))) =
       permissions w \<and>
     length (drop (length (permissions w)) (permissions (world (snd (constructor w p))))) =
       length (filter (\<lambda>x. lambdaFunc x \<noteq> None)
         (case props_actionGroups p of None \<Rightarrow> [] | Some ags \<Rightarrow> ags)) \<and>
     map permissionFunction
       (drop (length (permissions w)) (permissions (world (snd (constructor w p))))) =
       List.map_filter lambdaFunc (case props_actionGroups p of None \<Rightarrow> [] | Some ags \<Rightarrow> ags) \<and>
     list_all (\<lambda>g. permissionAction g = ''lambda:InvokeFunction'' \<and>
                   principal g = \<lparr>service = ''bedrock.amazonaws.com'', principalConditions = []\<rparr> \<and>
                   Some (sourceArn g) =
                     map_option attrAgentArn (this_agent (snd (constructor w p))))
       (drop (length (permissions w)) (permissions (world (snd (constructor w p)))))"
  proof (intro conjI impI)
  assume ok: "fst (constructor w p) = None"
  from constructor_permissions_pass[OF ok] obtain s' a' where
    c: "constructor w p = addResourcePolicyForActions (props_actionGroups p) s'" and
    a: "this_agent s' = Some a'" and pw: "permissions (world s') = permissions w" and
    fin: "this_agent (snd (constructor w p)) = Some a'"
    by blast
  note G = addResourcePolicyForActions_grants[OF a, of "props_actionGroups p", folded c,
      unfolded pw]
  show "take (length (permissions w)) (permissions (world (snd (constructor w p)))) =
       permissions w"
    using G by simp
  show "length (drop (length (permissions w)) (permissions (world (snd (constructor w p))))) =
       length (filter (\<lambda>x. lambdaFunc x \<noteq> None)
         (case props_actionGroups p of None \<Rightarrow> [] | Some ags \<Rightarrow> ags))"
    using G by simp
  show "map permissionFunction
       (drop (length (permissions w)) (permissions (world (snd (constructor w p))))) =
       List.map_filter lambdaFunc (case props_actionGroups p of None \<Rightarrow> [] | Some ags \<Rightarrow> ags)"
    using G by simp
  show "list_all (\<lambda>g. permissionAction g = ''lambda:InvokeFunction'' \<and>
                   principal g = \<lparr>service = ''bedrock.amazonaws.com'', principalConditions = []\<rparr> \<and>
                   Some (sourceArn g) =
                     map_option attrAgentArn (this_agent (snd (constructor w p))))
       (drop (length (permissions w)) (permissions (world (snd (constructor w p)))))"
    using G by (simp add: fin)
  qed
qed

theorem invocation_grants_witness:
  "this_agent agentState = Some sampleAgent \<and>
   fst (addResourcePolicyForActions (Some [pingGroup, functionGroup]) agentState) = None \<and>
   map permissionFunction
     (permissions (world (snd (addResourcePolicyForActions
        (Some [pingGroup, functionGroup]) agentState)))) = [Function ''lookupFn''] \<and>
   map sourceArn
     (permissions (world (snd (addResourcePolicyForActions
        (Some [pingGroup, functionGroup]) agentState)))) = [''<AgentBlueprint-helper.AgentArn>''] \<and>
   fst (constructor sampleWorld
     \<lparr>props_agentDefinition = sampleDefinition,
      props_actionGroups = Some [pingGroup, functionGroup]\<rparr>) = None \<and>
   map permissionFunction
     (permissions (world (snd (constructor sampleWorld
        \<lparr>props_agentDefinition = sampleDefinition,
         props_actionGroups = Some [pingGroup, functionGroup]\<rparr>)))) = [Function ''lookupFn'']"
proof -
  let ?q = "\<lparr>props_agentDefinition = sampleDefinition,
             props_actionGroups = Some [pingGroup, functionGroup]\<rparr>"
  have a: "this_agent agentState = Some sampleAgent" by (simp add: agentState_def)
  have p: "permissions (world agentState) = []"
    by (simp add: agentState_def new_state_def sampleWorld_def)
  have l: "List.map_filter lambdaFunc [pingGroup, functionGroup] = [Function ''lookupFn'']"
    by (simp add: List.map_filter_simps pingGroup_def functionGroup_def)
  have arn: "attrAgentArn sampleAgent = ''<AgentBlueprint-helper.AgentArn>''"
    by (simp add: attrAgentArn_def sampleAgent_def token_def)
  note T = invocation_grants[THEN conjunct1, rule_format, OF a,
      of "Some [pingGroup, functionGroup]", unfolded p]
  let ?ps = "permissions (world (snd (addResourcePolicyForActions
        (Some [pingGroup, functionGroup]) agentState)))"
  have f: "map permissionFunction ?ps = [Function ''lookupFn'']"
    using T l by simp
  then obtain g where g: "?ps = [g]" by auto
  have src: "sourceArn g = ''<AgentBlueprint-helper.AgentArn>''"
    using T g arn by simp
  have d: "distinctFileNames (props_actionGroups ?q)"
    by (simp add: distinctFileNames_def sample_fileBased)
  have ok: "fst (constructor sampleWorld ?q) = None"
    by (simp add: constructor_outcome[OF d] sample_populated)
  have pw: "permissions sampleWorld = []" by (simp add: sampleWorld_def)
  have c: "map permissionFunction (permissions (world (snd (constructor sampleWorld ?q)))) =
             [Function ''lookupFn'']"
    using invocation_grants[THEN conjunct2, rule_format, OF ok, unfolded pw] l by simp
  show ?thesis using a T f g src ok c by simp
qed






subsection \<open>Resolution by variant\<close>










subsection \<open>The ids of the scope\<close>

text \<open>
  Only a deployment can meet its own id again. The ids that the constructor declares for
  the bucket, the role and the agent differ from every id declared before them, so the
  scope has nothing to refuse there: whatever the input and the outcome, the constructor
  leaves a scope without a repeated id.
\<close>

lemma deployAssetsToBucket_ids:
  "map constructId (children (snd (deployAssetsToBucket files pre s))) =
     map constructId (children s) @
     (if nameFree s pre then [''AssetDeployment-'' @ pre] else [])"
proof (cases "nameFree s pre")
  case False
  then show ?thesis using deployAssetsToBucket_taken[OF False, of files] by simp
next
  case True
  show ?thesis
  proof (cases "this_assetManagementBucket s")
    case None
    then show ?thesis using deployAssetsToBucket_nostore[OF True None, of files] True by simp
  next
    case (Some b)
    then show ?thesis using deployAssetsToBucket_free[OF True Some, of files] True by simp
  qed
qed

lemma getApiSchema_all_ids:
  "map constructId (children (snd (getApiSchema sd n s))) =
     map constructId (children s) @
     (if fileBranch sd \<and> nameFree s n then [''AssetDeployment-'' @ n] else [])"
  unfolding getApiSchema_snd
  by (simp add: deployAssetsToBucket_ids addSchemaAccessForAgents_children split: sum.splits)

lemma getApiSchema_scope:
  "scopeBeforeAgent s \<Longrightarrow> scopeBeforeAgent (snd (getApiSchema sd n s))"
proof (cases "fileBranch sd \<and> nameFree s n")
  case True
  assume "scopeBeforeAgent s"
  then show ?thesis
    unfolding scopeBeforeAgent_def getApiSchema_all_ids
    using True by (simp add: nameFree_def)
next
  case False
  assume "scopeBeforeAgent s"
  then show ?thesis
    unfolding scopeBeforeAgent_def getApiSchema_all_ids
    using False by auto
qed

lemma mapActionGroups_scope:
  "scopeBeforeAgent s \<Longrightarrow> scopeBeforeAgent (snd (mapActionGroups ags s))"
proof (induction ags arbitrary: s)
  case Nil
  then show ?case by simp
next
  case (Cons a rest)
  show ?case
    unfolding mapActionGroups_Cons_snd
    by (simp add: Cons.IH Cons.prems getApiSchema_scope split: sum.splits)
qed

lemma setupBucketIfRequired_scope:
  "scopeBeforeAgent (setupBucketIfRequired ags (new_state w d))"
  by (cases "checkActionsRequireArtifacts ags")
     (simp_all add: scopeBeforeAgent_def setupBucketIfRequired_bucket new_state_def)

lemma associateActionGroupInfo_children:
  "children (snd (associateActionGroupInfo (Some ags) s)) = children (snd (mapActionGroups ags s))"
  unfolding associateActionGroupInfo_snd by (simp split: sum.splits)

lemma associateActionGroupInfo_scope:
  "scopeBeforeAgent s \<Longrightarrow> scopeBeforeAgent (snd (associateActionGroupInfo ags s))"
proof (cases ags)
  case None
  assume "scopeBeforeAgent s"
  then show ?thesis by (simp add: None associateActionGroupInfo_None)
next
  case (Some l)
  assume "scopeBeforeAgent s"
  then have "scopeBeforeAgent (snd (mapActionGroups l s))" by (rule mapActionGroups_scope)
  then show ?thesis
    by (simp add: Some scopeBeforeAgent_def associateActionGroupInfo_children)
qed

lemma createBedrockAgent_ids:
  "map constructId (children (createBedrockAgent s)) =
     map constructId (children s) @
     (if truthy (agentResourceRoleArn (this_agentDefinition s)) then []
      else [''BedrockServiceRole'']) @
     [''AgentBlueprint-'' @ agentName (this_agentDefinition s)]"
  by (simp add: createBedrockAgent_def Let_def split_def setupIAMRole_state)

lemma createBedrockAgent_scope:
  assumes "scopeBeforeAgent s"
  shows "distinct (map constructId (children (createBedrockAgent s)))"
proof -
  let ?a = "''AgentBlueprint-'' @ agentName (this_agentDefinition s)"
  have a: "take 15 ?a = ''AgentBlueprint-''" by simp
  have "?a \<notin> set (map constructId (children s))"
  proof
    assume "?a \<in> set (map constructId (children s))"
    then have "take 15 ?a \<noteq> ''AgentBlueprint-''"
      using assms unfolding scopeBeforeAgent_def list_all_iff by blast
    with a show False by simp
  qed
  moreover have "''BedrockServiceRole'' \<notin> set (map constructId (children s))"
    using assms unfolding scopeBeforeAgent_def list_all_iff by blast
  ultimately show ?thesis
    using assms unfolding createBedrockAgent_ids scopeBeforeAgent_def by simp
qed

lemma constructor_scope_distinct:
  "distinct (map constructId (children (snd (constructor w p))))"
proof -
  let ?r = "associateActionGroupInfo (props_actionGroups p)
              (setupBucketIfRequired (props_actionGroups p)
                 (new_state w (props_agentDefinition p)))"
  have s: "scopeBeforeAgent (snd ?r)"
    by (rule associateActionGroupInfo_scope[OF setupBucketIfRequired_scope])
  show ?thesis
  proof (cases "fst (fst ?r)")
    case None
    then have "constructor w p =
        addResourcePolicyForActions (props_actionGroups p) (createBedrockAgent (snd ?r))"
      unfolding constructor_unfold Let_def by simp
    then show ?thesis
      by (simp add: addResourcePolicyForActions_frame createBedrockAgent_scope[OF s])
  next
    case (Some e)
    then have "snd (constructor w p) = snd ?r"
      unfolding constructor_unfold Let_def by simp
    then show ?thesis using s by (simp add: scopeBeforeAgent_def)
  qed
qed

end
